theory Spec2Isabelle
  imports Complex_Main "HOL-Library.Sublist"
begin

section \<open>Python strings\<close>

text \<open>
  A Python \<open>str\<close> is modelled as a \<open>string\<close>; a \<open>char\<close> stands for the code point
  of the same number, so the model covers the texts whose code points lie below 256.
\<close>

definition backslash :: char where
  "backslash = CHR 0x5C"

definition newline :: char where
  "newline = CHR 0x0A"

definition asterisk :: char where
  "asterisk = CHR ''*''"

definition carriage_return :: char where
  "carriage_return = CHR 0x0D"

text \<open>
  \<open>str.isspace\<close> on one character: the code points below 256 that Python counts as
  whitespace (tab, line feed, vertical tab, form feed, carriage return, the four
  separators 0x1C to 0x1F, space, next line 0x85 and no-break space 0xA0).
\<close>

definition isspace :: "char \<Rightarrow> bool" where
  "isspace c = (of_char c \<in> {9, 10, 11, 12, 13, 28, 29, 30, 31, 32, 133, 160 :: nat})"

text \<open>\<open>s.strip()\<close>: whitespace is dropped at both ends.\<close>

definition strip :: "string \<Rightarrow> string" where
  "strip s = rev (dropWhile isspace (rev (dropWhile isspace s)))"

text \<open>\<open>sep.join(xs)\<close>.\<close>

fun join :: "string \<Rightarrow> string list \<Rightarrow> string" where
  "join sep [] = []"
| "join sep [x] = x"
| "join sep (x # y # ys) = x @ sep @ join sep (y # ys)"

text \<open>\<open>s.endswith(t)\<close>.\<close>

definition endswith :: "string \<Rightarrow> string \<Rightarrow> bool" where
  "endswith s t = (length t \<le> length s \<and> drop (length s - length t) s = t)"

text \<open>\<open>s.replace('*', '')\<close>.\<close>

definition remove_asterisks :: "string \<Rightarrow> string" where
  "remove_asterisks s = filter (\<lambda>c. c \<noteq> asterisk) s"

text \<open>
  \<open>s.split('\n\n')\<close>: the text is cut at each pair of line feeds, scanning from the
  left; \<open>cur\<close> is the piece being read. The empty text gives one empty piece.
\<close>

fun split_blank_acc :: "string \<Rightarrow> string \<Rightarrow> string list" where
  "split_blank_acc cur [] = [cur]"
| "split_blank_acc cur [c] = [cur @ [c]]"
| "split_blank_acc cur (c # d # cs) =
     (if c = newline \<and> d = newline then cur # split_blank_acc [] cs
      else split_blank_acc (cur @ [c]) (d # cs))"

definition split_blank :: "string \<Rightarrow> string list" where
  "split_blank s = split_blank_acc [] s"

text \<open>\<open>xs[-3:]\<close>: the last three elements, or all of them when there are fewer.\<close>

definition last3 :: "'a list \<Rightarrow> 'a list" where
  "last3 xs = drop (length xs - 3) xs"

text \<open>Decimal digits: \<open>str(n)\<close> for a natural number, as an f-string prints a length.\<close>

definition digit_char :: "nat \<Rightarrow> char" where
  "digit_char d = ''0123456789'' ! d"

fun show_nat :: "nat \<Rightarrow> string" where
  "show_nat n =
     (if n < 10 then [digit_char n] else show_nat (n div 10) @ [digit_char (n mod 10)])"

declare show_nat.simps [simp del]

definition isdigit :: "char \<Rightarrow> bool" where
  "isdigit c = (c \<in> set ''0123456789'')"

section \<open>The clock\<close>

text \<open>
  \<open>datetime.datetime.now()\<close> is an input of the operations that read it. The fields
  are those of a Python \<open>datetime\<close>; a value the clock can return satisfies
  \<open>valid_datetime\<close>.
\<close>

record datetime =
  year :: nat
  month :: nat
  day :: nat
  hour :: nat
  minute :: nat
  second :: nat

definition valid_datetime :: "datetime \<Rightarrow> bool" where
  "valid_datetime t =
     (1 \<le> year t \<and> year t \<le> 9999 \<and> 1 \<le> month t \<and> month t \<le> 12 \<and>
      1 \<le> day t \<and> day t \<le> 31 \<and> hour t < 24 \<and> minute t < 60 \<and> second t < 60)"

text \<open>The directives \<open>%H\<close>, \<open>%M\<close>, \<open>%S\<close>, \<open>%m\<close> and \<open>%d\<close>: two digits, zero padded.\<close>

definition pad2 :: "nat \<Rightarrow> string" where
  "pad2 n = (if n < 10 then CHR ''0'' # show_nat n else show_nat n)"

text \<open>\<open>strftime("%H:%M:%S")\<close>.\<close>

definition strftime_HMS :: "datetime \<Rightarrow> string" where
  "strftime_HMS t = pad2 (hour t) @ '':'' @ pad2 (minute t) @ '':'' @ pad2 (second t)"

text \<open>\<open>strftime('%Y-%m-%d %H:%M')\<close>.\<close>

definition strftime_YmdHM :: "datetime \<Rightarrow> string" where
  "strftime_YmdHM t =
     show_nat (year t) @ ''-'' @ pad2 (month t) @ ''-'' @ pad2 (day t) @ '' '' @
     pad2 (hour t) @ '':'' @ pad2 (minute t)"

text \<open>A well-formed \<open>HH:MM:SS\<close> string: eight characters, digits around two colons.\<close>

definition is_HMS :: "string \<Rightarrow> bool" where
  "is_HMS s =
     (case s of
        [h1, h2, c1, m1, m2, c2, s1, s2] \<Rightarrow>
          isdigit h1 \<and> isdigit h2 \<and> c1 = CHR '':'' \<and> isdigit m1 \<and> isdigit m2 \<and>
          c2 = CHR '':'' \<and> isdigit s1 \<and> isdigit s2
      | _ \<Rightarrow> False)"

section \<open>The services outside the program\<close>

text \<open>
  A Python exception is a value; a call that can raise returns \<open>exn + 'a\<close>, with
  \<open>Inl\<close> for the exception raised.
\<close>

datatype exn = Exception string

text \<open>
  What the program calls and does not define:
  \<^item> \<open>llm_invoke\<close>: \<open>llm.invoke(prompt).content\<close>, the hosted language model;
  \<^item> \<open>encode\<close>: \<open>embedding_model.encode(text, convert_to_tensor=True)\<close>;
  \<^item> \<open>format_1f\<close>: the f-string format \<open>{score:.1f}\<close> of a float;
  \<^item> \<open>pdf_open\<close>: \<open>pdfplumber.open(path)\<close>, as the result of \<open>extract_text()\<close> page by
    page (\<open>None\<close> for a page that gives Python's \<open>None\<close>);
  \<^item> \<open>decoded_contents\<close>: the bytes of the file at a path, decoded as UTF-8, with
    \<open>Inl\<close> when the file cannot be opened or decoded;
  \<^item> \<open>open_write\<close>: whether opening the path for writing raises.
  Each is a function: the same argument gives the same answer.
\<close>

record env =
  llm_invoke :: "string \<Rightarrow> exn + string"
  encode :: "string \<Rightarrow> real list"
  format_1f :: "real \<Rightarrow> string"
  pdf_open :: "string \<Rightarrow> exn + string option list"
  decoded_contents :: "string \<Rightarrow> exn + string"
  open_write :: "string \<Rightarrow> exn option"

section \<open>Loading a document\<close>

text \<open>
  The loop of \<open>extract_text_from_pdf\<close>: \<open>text\<close> grows by each page whose extraction is
  truthy (neither \<open>None\<close> nor the empty string), followed by a line feed.
\<close>

fun pages_loop :: "string \<Rightarrow> string option list \<Rightarrow> string" where
  "pages_loop text [] = text"
| "pages_loop text (None # pages) = pages_loop text pages"
| "pages_loop text (Some page_text # pages) =
     (if page_text \<noteq> [] then pages_loop (text @ page_text @ [newline]) pages
      else pages_loop text pages)"

definition extract_text_from_pdf :: "env \<Rightarrow> string \<Rightarrow> exn + string" where
  "extract_text_from_pdf e pdf_path =
     (case pdf_open e pdf_path of
        Inl err \<Rightarrow> Inl err
      | Inr pages \<Rightarrow> Inr (strip (pages_loop [] pages)))"

text \<open>
  \<open>open(file_path, 'r', encoding='utf-8').read()\<close>. The file is opened in text mode
  with the default \<open>newline=None\<close>, so Python translates the line endings while it
  reads: a carriage return followed by a line feed, and a carriage return alone, each
  become one line feed.
\<close>

fun universal_newlines :: "string \<Rightarrow> string" where
  "universal_newlines [] = []"
| "universal_newlines [c] = (if c = carriage_return then [newline] else [c])"
| "universal_newlines (c # d # cs) =
     (if c = carriage_return then
        (if d = newline then newline # universal_newlines cs
         else newline # universal_newlines (d # cs))
      else c # universal_newlines (d # cs))"

definition open_read :: "env \<Rightarrow> string \<Rightarrow> exn + string" where
  "open_read e file_path =
     (case decoded_contents e file_path of
        Inl err \<Rightarrow> Inl err
      | Inr decoded \<Rightarrow> Inr (universal_newlines decoded))"

text \<open>
  The expression both load operations evaluate:
  \<^verbatim>\<open>extract_text_from_pdf(file_path) if file_path.endswith('.pdf') else open(file_path, 'r', encoding='utf-8').read()\<close>.
\<close>

definition load_document :: "env \<Rightarrow> string \<Rightarrow> exn + string" where
  "load_document e file_path =
     (if endswith file_path ''.pdf'' then extract_text_from_pdf e file_path
      else open_read e file_path)"

section \<open>The match score\<close>

text \<open>
  Modelled from the spec: \<open>util.pytorch_cos_sim\<close> is a function of the
  sentence-transformers library, not of this repository. The spec calls it the cosine
  similarity, "the cosine of the angle between two vectors": over the reals, the dot
  product divided by the product of the norms. Floating-point rounding is not modelled.
\<close>

definition dot :: "real list \<Rightarrow> real list \<Rightarrow> real" where
  "dot u v = sum_list (map2 (*) u v)"

definition l2_norm :: "real list \<Rightarrow> real" where
  "l2_norm u = sqrt (dot u u)"

definition pytorch_cos_sim :: "real list \<Rightarrow> real list \<Rightarrow> real" where
  "pytorch_cos_sim u v = dot u v / (l2_norm u * l2_norm v)"

definition calculate_match_score :: "env \<Rightarrow> string \<Rightarrow> string \<Rightarrow> real" where
  "calculate_match_score e jd resume =
     (let jd_embedding = encode e jd;
          resume_embedding = encode e resume;
          similarity = pytorch_cos_sim jd_embedding resume_embedding
      in similarity * 10)"

section \<open>The cleanup of a model response\<close>

text \<open>
  Every response of the language model goes through
  \<^verbatim>\<open>re.sub(r"\\(.?)\\*", r"\1", response.content).strip()\<close>.
  The pattern reads: one backslash; then a group of at most one character other than a
  line feed (greedy); then any number of backslashes (greedy). Every part after the first
  backslash may be empty, so a match starts at each backslash the scan reaches and the
  greedy choice is always the one taken. The match is replaced by the group.
\<close>

function re_sub :: "string \<Rightarrow> string" where
  "re_sub [] = []"
| "re_sub (c # cs) =
     (if c \<noteq> backslash then c # re_sub cs
      else (case cs of
              [] \<Rightarrow> []
            | d # ds \<Rightarrow>
                if d = newline then re_sub cs
                else d # re_sub (dropWhile (\<lambda>x. x = backslash) ds)))"
  by pat_completeness auto
termination
  by (relation "measure length") (auto intro!: le_imp_less_Suc le_SucI length_dropWhile_le)

definition cleanup :: "string \<Rightarrow> string" where
  "cleanup content = strip (re_sub content)"

section \<open>The session\<close>

text \<open>
  One entry of \<open>conversation_messages\<close>: the dictionary with the keys \<open>sender\<close>,
  \<open>message\<close> and \<open>timestamp\<close>.
\<close>

record msg =
  sender :: string
  message :: string
  timestamp :: string

text \<open>A message box shown to the user, with its title and text.\<close>

datatype dialog =
  ShowError string string
| ShowWarning string string
| ShowInfo string string

text \<open>
  The state both programs share: the module globals \<open>conversation_messages\<close> and
  \<open>job_description\<close>, the text of the widgets, the message boxes shown and the result
  windows opened so far, and \<open>llm_prompts\<close>, the prompts sent to the language model so
  far (one entry for each call of \<open>llm.invoke\<close>, whether it returned or raised).
  Colours, fonts and tags of the widgets are not modelled. The answers of the file
  dialogs and of \<open>askyesno\<close> are arguments of the operations.
\<close>

record session =
  conversation_messages :: "msg list"
  job_description :: string
  current_sender :: string
  message_input :: string
  chat_display :: string
  status_label :: string
  dialogs :: "dialog list"
  results_windows :: "string list"
  llm_prompts :: "string list"

text \<open>\<open>src/main.py\<close>: one resume, and the text files written.\<close>

record app = session +
  candidate_resume :: string
  files :: "string \<rightharpoonup> string"

text \<open>A flowable of a report document: \<open>Paragraph(text, style)\<close> and \<open>Spacer(w, h)\<close>.\<close>

datatype flowable = Paragraph string string | Spacer nat nat

text \<open>
  \<open>src/try.py\<close>, the variant with several resumes: the globals \<open>candidate_resumes\<close>
  and \<open>interview_suggestions\<close>, the attribute \<open>self.candidate_resumes\<close> (set once and
  never read), the list box of file names, the suggestion label, the lines printed and
  the report documents built.
\<close>

record app_multi = session +
  candidate_resumes :: "string list"
  interview_suggestions :: "string list"
  self_candidate_resumes :: "string list"
  resume_listbox :: "string list"
  suggestion_text :: string
  stdout :: "string list"
  pdfs :: "string \<rightharpoonup> flowable list"

text \<open>\<open>f"{msg['sender']}: {msg['message']}"\<close> and the transcript joined by line feeds.\<close>

definition format_msg :: "msg \<Rightarrow> string" where
  "format_msg m = sender m @ '': '' @ message m"

definition transcript :: "msg list \<Rightarrow> string" where
  "transcript msgs = join [newline] (map format_msg msgs)"

text \<open>\<open>self.message_input.get("1.0", tk.END)\<close>: the text typed and the line feed a Tk text
  widget ends with.\<close>

definition text_get :: "string \<Rightarrow> string" where
  "text_get typed = typed @ [newline]"

text \<open>The sender the radio buttons switch to after a message.\<close>

definition other_sender :: "string \<Rightarrow> string" where
  "other_sender sndr = (if sndr = ''Recruiter'' then ''Candidate'' else ''Recruiter'')"

section \<open>The program with one resume\<close>

text \<open>The state after the module is loaded and the window is set up.\<close>

definition initial_app :: app where
  "initial_app =
     \<lparr>conversation_messages = [], job_description = [], current_sender = ''Recruiter'',
      message_input = [], chat_display = [],
      status_label = ''Please load job description and resume'',
      dialogs = [], results_windows = [], llm_prompts = [],
      candidate_resume = [], files = Map.empty\<rparr>"

definition fit_prompt :: "string \<Rightarrow> string \<Rightarrow> string \<Rightarrow> string" where
  "fit_prompt jd resume conversation_text =
     ''\<newline>'' @
     ''    Based on the following information, provide a detailed analysis of whether this candidate should be advanced to the next interview stage:\<newline>'' @
     ''\<newline>'' @
     ''    JOB DESCRIPTION:\<newline>'' @
     ''    '' @
     jd @
     ''\<newline>'' @
     ''\<newline>'' @
     ''    CANDIDATE RESUME:\<newline>'' @
     ''    '' @
     resume @
     ''\<newline>'' @
     ''\<newline>'' @
     ''    CONVERSATION TRANSCRIPT:\<newline>'' @
     ''    '' @
     conversation_text @
     ''\<newline>'' @
     ''\<newline>'' @
     ''    Please analyze and provide:\<newline>'' @
     ''    1. Key Insights from Conversation (technical skills, communication, cultural fit, red flags)\<newline>'' @
     ''    2. Resume vs. Conversation Consistency\<newline>'' @
     ''    3. Job Fit Analysis\<newline>'' @
     ''    4. FINAL RECOMMENDATION: PROCEED TO INTERVIEW / DECLINE / ADDITIONAL SCREENING\<newline>'' @
     ''    5. Confidence Level: [High/Medium/Low]\<newline>'' @
     ''    6. Justification for recommendation\<newline>'' @
     ''    ''"

definition analyze_candidate_fit :: "env \<Rightarrow> app \<Rightarrow> (exn + string) \<times> app" where
  "analyze_candidate_fit e w =
     (let conversation_text = transcript (conversation_messages w);
          prompt = fit_prompt (job_description w) (candidate_resume w) conversation_text;
          w' = w\<lparr>llm_prompts := llm_prompts w @ [prompt]\<rparr>
      in case llm_invoke e prompt of
           Inl err \<Rightarrow> (Inl err, w')
         | Inr content \<Rightarrow> (Inr (cleanup content), w'))"

definition update_status :: "env \<Rightarrow> app \<Rightarrow> app" where
  "update_status e w =
     (if job_description w \<noteq> [] \<and> candidate_resume w \<noteq> [] then
        w\<lparr>status_label := ''Initial Resume Match: '' @
             format_1f e (calculate_match_score e (job_description w) (candidate_resume w)) @
             ''/10''\<rparr>
      else if job_description w \<noteq> [] then
        w\<lparr>status_label := ''Job description loaded. Please load resume.''\<rparr>
      else if candidate_resume w \<noteq> [] then
        w\<lparr>status_label := ''Resume loaded. Please load job description.''\<rparr>
      else w\<lparr>status_label := ''Please load job description and resume''\<rparr>)"

text \<open>\<open>file_path\<close> is the answer of the file dialog, empty when the user cancels.\<close>

definition load_job_description :: "env \<Rightarrow> string \<Rightarrow> app \<Rightarrow> (exn + unit) \<times> app" where
  "load_job_description e file_path w =
     (if file_path = [] then (Inr (), w)
      else case load_document e file_path of
             Inl err \<Rightarrow> (Inl err, w)
           | Inr txt \<Rightarrow> (Inr (), update_status e (w\<lparr>job_description := txt\<rparr>)))"

definition load_candidate_resume :: "env \<Rightarrow> string \<Rightarrow> app \<Rightarrow> (exn + unit) \<times> app" where
  "load_candidate_resume e file_path w =
     (if file_path = [] then (Inr (), w)
      else case load_document e file_path of
             Inl err \<Rightarrow> (Inl err, w)
           | Inr txt \<Rightarrow> (Inr (), update_status e (w\<lparr>candidate_resume := txt\<rparr>)))"

text \<open>
  \<open>send_message\<close>. The sender is the one the radio buttons select, the text is what the
  input widget holds, \<open>now\<close> is the clock.
\<close>

definition send_message :: "datetime \<Rightarrow> app \<Rightarrow> app" where
  "send_message now w =
     (let msg_text = strip (text_get (message_input w)) in
      if msg_text = [] then w
      else
        let sndr = current_sender w;
            stamp = strftime_HMS now;
            w1 = w\<lparr>conversation_messages := conversation_messages w @
                     [\<lparr>sender = sndr, message = msg_text, timestamp = stamp\<rparr>]\<rparr>;
            w2 = w1\<lparr>chat_display := chat_display w1 @
                     ''['' @ stamp @ ''] '' @ sndr @ '': '' @ msg_text @ [newline, newline]\<rparr>
        in w2\<lparr>message_input := [], current_sender := other_sender sndr\<rparr>)"

definition show_analysis_results :: "string \<Rightarrow> app \<Rightarrow> app" where
  "show_analysis_results analysis w =
     w\<lparr>status_label := ''Analysis complete'',
       results_windows := results_windows w @ [analysis]\<rparr>"

definition analyze_conversation :: "env \<Rightarrow> app \<Rightarrow> (exn + unit) \<times> app" where
  "analyze_conversation e w =
     (if job_description w = [] \<or> candidate_resume w = [] then
        (Inr (), w\<lparr>dialogs := dialogs w @
           [ShowError ''Error''
              ''Please load both job description and resume before analyzing'']\<rparr>)
      else if length (conversation_messages w) < 3 then
        (Inr (), w\<lparr>dialogs := dialogs w @
           [ShowWarning ''Warning''
              ''The conversation is too short. Add more messages before analyzing.'']\<rparr>)
      else
        (case analyze_candidate_fit e
                (w\<lparr>status_label := ''Analyzing conversation... Please wait.''\<rparr>) of
           (Inl err, w') \<Rightarrow> (Inl err, w')
         | (Inr analysis, w') \<Rightarrow> (Inr (), show_analysis_results analysis w')))"

text \<open>The header \<open>save_analysis\<close> writes before the analysis.\<close>

definition report_metadata :: "env \<Rightarrow> datetime \<Rightarrow> app \<Rightarrow> string" where
  "report_metadata e now w =
     ''\<newline>'' @
     ''CANDIDATE EVALUATION REPORT\<newline>'' @
     ''Date: '' @ strftime_YmdHM now @ ''\<newline>'' @
     ''Messages analyzed: '' @ show_nat (length (conversation_messages w)) @ ''\<newline>'' @
     ''Initial resume match score: '' @
     format_1f e (calculate_match_score e (job_description w) (candidate_resume w)) @
     ''/10\<newline>'' @
     ''\<newline>'' @
     ''--- ANALYSIS RESULTS ---\<newline>'' @
     ''\<newline>''"

text \<open>\<open>file_path\<close> is the answer of the save dialog, empty when the user cancels.\<close>

definition save_analysis ::
  "env \<Rightarrow> datetime \<Rightarrow> string \<Rightarrow> string \<Rightarrow> app \<Rightarrow> (exn + unit) \<times> app" where
  "save_analysis e now file_path analysis w =
     (if file_path = [] then (Inr (), w)
      else case open_write e file_path of
             Some err \<Rightarrow> (Inl err, w)
           | None \<Rightarrow>
               (Inr (),
                w\<lparr>files := (files w)(file_path \<mapsto> report_metadata e now w @ analysis),
                  dialogs := dialogs w @
                    [ShowInfo ''Success'' ''Analysis saved successfully!'']\<rparr>))"

text \<open>\<open>confirm\<close> is the answer of \<open>askyesno\<close>.\<close>

definition clear_chat :: "bool \<Rightarrow> app \<Rightarrow> app" where
  "clear_chat confirm w =
     (if confirm then
        w\<lparr>conversation_messages := [], chat_display := [], current_sender := ''Recruiter''\<rparr>
      else w)"

section \<open>The program with several resumes\<close>

definition initial_app_multi :: app_multi where
  "initial_app_multi =
     \<lparr>conversation_messages = [], job_description = [], current_sender = ''Recruiter'',
      message_input = [], chat_display = [],
      status_label = ''Please load job description and resume'',
      dialogs = [], results_windows = [], llm_prompts = [],
      candidate_resumes = [], interview_suggestions = [], self_candidate_resumes = [],
      resume_listbox = [], suggestion_text = [], stdout = [], pdfs = Map.empty\<rparr>"

definition suggestion_prompt :: "string \<Rightarrow> string \<Rightarrow> string" where
  "suggestion_prompt jd recent_messages =
     ''\<newline>'' @
     ''    Based on the job description for a Data Analyst role and the recent conversation, \<newline>'' @
     ''    generate a targeted follow-up interview question or discussion point.\<newline>'' @
     ''\<newline>'' @
     ''    Job Description Context:\<newline>'' @
     ''    '' @
     jd @
     ''\<newline>'' @
     ''\<newline>'' @
     ''    Recent Conversation:\<newline>'' @
     ''    '' @
     recent_messages @
     ''\<newline>'' @
     ''\<newline>'' @
     ''    Provide:\<newline>'' @
     ''    A question that is better to be asked for the role , no justification needed\<newline>'' @
     ''    ''"

text \<open>
  \<open>generate_dynamic_interview_suggestion\<close>: \<open>None\<close> is Python's \<open>None\<close>. The handler of
  \<open>except Exception\<close> prints a line and returns \<open>None\<close>.
\<close>

definition generate_dynamic_interview_suggestion ::
  "env \<Rightarrow> app_multi \<Rightarrow> string option \<times> app_multi" where
  "generate_dynamic_interview_suggestion e w =
     (if length (conversation_messages w) < 2 \<or> job_description w = [] \<or>
         candidate_resumes w = [] then (None, w)
      else
        let recent_messages =
              join [newline] (map format_msg (last3 (conversation_messages w)));
            prompt = suggestion_prompt (job_description w) recent_messages;
            w' = w\<lparr>llm_prompts := llm_prompts w @ [prompt]\<rparr>
        in case llm_invoke e prompt of
             Inr content \<Rightarrow> (Some (cleanup content), w')
           | Inl (Exception err) \<Rightarrow>
               (None,
                w'\<lparr>stdout := stdout w' @
                      [''Error generating interview suggestion: '' @ err]\<rparr>))"

definition questions_prompt :: "string \<Rightarrow> string \<Rightarrow> string" where
  "questions_prompt jd resume =
     ''\<newline>'' @
     ''    Generate a list of 5-7 targeted interview questions based on the following:\<newline>'' @
     ''\<newline>'' @
     ''    JOB DESCRIPTION:\<newline>'' @
     ''    '' @
     jd @
     ''\<newline>'' @
     ''\<newline>'' @
     ''    CANDIDATE RESUME:\<newline>'' @
     ''    '' @
     resume @
     ''\<newline>'' @
     ''\<newline>'' @
     ''    For each question, provide:\<newline>'' @
     ''    1. A specific question targeting the candidate's skills or experience\<newline>'' @
     ''    Format the output as a numbered list,just the questions enough no justification needed.\<newline>'' @
     ''    ''"

definition generate_interview_questions ::
  "env \<Rightarrow> string \<Rightarrow> string \<Rightarrow> app_multi \<Rightarrow> (exn + string) \<times> app_multi" where
  "generate_interview_questions e jd resume w =
     (let prompt = questions_prompt jd resume;
          w' = w\<lparr>llm_prompts := llm_prompts w @ [prompt]\<rparr>
      in case llm_invoke e prompt of
           Inl err \<Rightarrow> (Inl err, w')
         | Inr content \<Rightarrow> (Inr (cleanup content), w'))"

definition fit_prompt_multi :: "string \<Rightarrow> string \<Rightarrow> string \<Rightarrow> string" where
  "fit_prompt_multi jd combined_resumes conversation_text =
     ''\<newline>'' @
     ''    Based on the following information, provide a detailed analysis of whether this candidate should be advanced to the next interview stage:\<newline>'' @
     ''\<newline>'' @
     ''    JOB DESCRIPTION:\<newline>'' @
     ''    '' @
     jd @
     ''\<newline>'' @
     ''\<newline>'' @
     ''    CANDIDATE RESUME(S):\<newline>'' @
     ''    '' @
     combined_resumes @
     ''\<newline>'' @
     ''\<newline>'' @
     ''    CONVERSATION TRANSCRIPT:\<newline>'' @
     ''    '' @
     conversation_text @
     ''\<newline>'' @
     ''\<newline>'' @
     ''    Please analyze and provide:\<newline>'' @
     ''    1. Key Insights from Conversation (technical skills, communication)\<newline>'' @
     ''    2. Job Fit Analysis\<newline>'' @
     ''    3. FINAL RECOMMENDATION: PROCEED TO INTERVIEW / DECLINE / ADDITIONAL SCREENING\<newline>'' @
     ''    4. Justification for recommendation\<newline>'' @
     ''\<newline>'' @
     ''    Provide a short,structured, clear, and professional analysis.\<newline>'' @
     ''    ''"

definition analyze_candidate_fit_multi ::
  "env \<Rightarrow> app_multi \<Rightarrow> (exn + string) \<times> app_multi" where
  "analyze_candidate_fit_multi e w =
     (let conversation_text = transcript (conversation_messages w);
          combined_resumes =
            join ([newline, newline] @ ''---'' @ [newline, newline]) (candidate_resumes w);
          prompt = fit_prompt_multi (job_description w) combined_resumes conversation_text;
          w' = w\<lparr>llm_prompts := llm_prompts w @ [prompt]\<rparr>
      in case llm_invoke e prompt of
           Inl err \<Rightarrow> (Inl err, w')
         | Inr content \<Rightarrow> (Inr (cleanup content), w'))"

text \<open>
  \<open>save_pdf_report\<close>: the story handed to \<open>doc.build\<close>, stored under the file name. The
  markup the library reads inside a paragraph is not modelled.
\<close>

definition report_story :: "datetime \<Rightarrow> string \<Rightarrow> flowable list" where
  "report_story now analysis =
     (let clean_analysis = remove_asterisks analysis;
          sections = split_blank clean_analysis
      in [Paragraph ''Candidate Evaluation Report'' ''Title'', Spacer 1 12,
          Paragraph (''Date: '' @ strftime_YmdHM now) ''Normal'', Spacer 1 12] @
         concat (map (\<lambda>section. [Paragraph section ''Normal'', Spacer 1 6]) sections))"

definition save_pdf_report ::
  "env \<Rightarrow> datetime \<Rightarrow> string \<Rightarrow> string \<Rightarrow> app_multi \<Rightarrow> (exn + unit) \<times> app_multi" where
  "save_pdf_report e now filename analysis w =
     (case open_write e filename of
        Some err \<Rightarrow> (Inl err, w)
      | None \<Rightarrow> (Inr (), w\<lparr>pdfs := (pdfs w)(filename \<mapsto> report_story now analysis)\<rparr>))"

text \<open>The score shown is the one of the first resume, \<open>candidate_resumes[0]\<close>.\<close>

definition update_status_multi :: "env \<Rightarrow> app_multi \<Rightarrow> app_multi" where
  "update_status_multi e w =
     (if job_description w \<noteq> [] \<and> candidate_resumes w \<noteq> [] then
        w\<lparr>status_label := ''Initial Resume Match: '' @
             format_1f e
               (calculate_match_score e (job_description w) (hd (candidate_resumes w))) @
             ''/10''\<rparr>
      else if job_description w \<noteq> [] then
        w\<lparr>status_label := ''Job description loaded. Please load resume.''\<rparr>
      else if candidate_resumes w \<noteq> [] then
        w\<lparr>status_label := ''Resume loaded. Please load job description.''\<rparr>
      else w\<lparr>status_label := ''Please load job description and resume''\<rparr>)"

definition load_job_description_multi ::
  "env \<Rightarrow> string \<Rightarrow> app_multi \<Rightarrow> (exn + unit) \<times> app_multi" where
  "load_job_description_multi e file_path w =
     (if file_path = [] then (Inr (), w)
      else case load_document e file_path of
             Inl err \<Rightarrow> (Inl err, w)
           | Inr txt \<Rightarrow> (Inr (), update_status_multi e (w\<lparr>job_description := txt\<rparr>)))"

text \<open>\<open>os.path.basename\<close>: what follows the last slash.\<close>

definition basename :: "string \<Rightarrow> string" where
  "basename path = rev (takeWhile (\<lambda>c. c \<noteq> CHR ''/'') (rev path))"

definition load_candidate_resume_multi ::
  "env \<Rightarrow> string \<Rightarrow> app_multi \<Rightarrow> (exn + unit) \<times> app_multi" where
  "load_candidate_resume_multi e file_path w =
     (if file_path = [] then (Inr (), w)
      else case load_document e file_path of
             Inl err \<Rightarrow> (Inl err, w)
           | Inr resume_text \<Rightarrow>
               (Inr (),
                update_status_multi e
                  (w\<lparr>candidate_resumes := candidate_resumes w @ [resume_text],
                     resume_listbox := resume_listbox w @ [basename file_path]\<rparr>)))"

text \<open>
  \<open>send_message\<close> of this variant: after the message is stored and shown, a conversation
  of more than three messages asks for a suggestion; a truthy one (neither \<open>None\<close> nor
  empty) is appended to \<open>interview_suggestions\<close> and shown, otherwise the label is
  emptied.
\<close>

definition send_message_multi :: "env \<Rightarrow> datetime \<Rightarrow> app_multi \<Rightarrow> app_multi" where
  "send_message_multi e now w =
     (let msg_text = strip (text_get (message_input w)) in
      if msg_text = [] then w
      else
        let sndr = current_sender w;
            stamp = strftime_HMS now;
            w1 = w\<lparr>conversation_messages := conversation_messages w @
                     [\<lparr>sender = sndr, message = msg_text, timestamp = stamp\<rparr>]\<rparr>;
            w2 = w1\<lparr>chat_display := chat_display w1 @
                     ''['' @ stamp @ ''] '' @ sndr @ '': '' @ msg_text @ [newline, newline]\<rparr>;
            w3 = (if length (conversation_messages w2) > 3 then
                    (case generate_dynamic_interview_suggestion e w2 of
                       (Some suggestion, w') \<Rightarrow>
                         if suggestion \<noteq> [] then
                           w'\<lparr>interview_suggestions := interview_suggestions w' @ [suggestion],
                              suggestion_text := suggestion\<rparr>
                         else w'\<lparr>suggestion_text := []\<rparr>
                     | (None, w') \<Rightarrow> w'\<lparr>suggestion_text := []\<rparr>)
                  else w2)
        in w3\<lparr>message_input := [], current_sender := other_sender sndr\<rparr>)"

definition show_analysis_results_multi :: "string \<Rightarrow> string \<Rightarrow> app_multi \<Rightarrow> app_multi" where
  "show_analysis_results_multi analysis interview_questions w =
     (let clean_analysis = remove_asterisks analysis;
          clean_questions = remove_asterisks interview_questions
      in w\<lparr>status_label := ''Analysis complete'',
           results_windows := results_windows w @
             [''CANDIDATE ANALYSIS:'' @ [newline, newline] @ clean_analysis @
              [newline, newline] @ ''--- INTERVIEW QUESTIONS ---'' @ [newline, newline] @
              clean_questions]\<rparr>)"

definition analyze_conversation_multi ::
  "env \<Rightarrow> app_multi \<Rightarrow> (exn + unit) \<times> app_multi" where
  "analyze_conversation_multi e w =
     (if job_description w = [] \<or> candidate_resumes w = [] then
        (Inr (), w\<lparr>dialogs := dialogs w @
           [ShowError ''Error''
              ''Please load job description and at least one resume before analyzing'']\<rparr>)
      else if length (conversation_messages w) < 3 then
        (Inr (), w\<lparr>dialogs := dialogs w @
           [ShowWarning ''Warning''
              ''The conversation is too short. Add more messages before analyzing.'']\<rparr>)
      else
        (case analyze_candidate_fit_multi e
                (w\<lparr>status_label := ''Analyzing conversation... Please wait.''\<rparr>) of
           (Inl err, w1) \<Rightarrow> (Inl err, w1)
         | (Inr analysis, w1) \<Rightarrow>
             (case generate_interview_questions e (job_description w1)
                     (join [newline, newline] (candidate_resumes w1)) w1 of
                (Inl err, w2) \<Rightarrow> (Inl err, w2)
              | (Inr interview_questions, w2) \<Rightarrow>
                  (Inr (), show_analysis_results_multi analysis interview_questions w2))))"

text \<open>\<open>save_report\<close>, the command of the button of the result window.\<close>

definition save_report ::
  "env \<Rightarrow> datetime \<Rightarrow> string \<Rightarrow> string \<Rightarrow> app_multi \<Rightarrow> (exn + unit) \<times> app_multi" where
  "save_report e now file_path analysis w =
     (if file_path = [] then (Inr (), w)
      else case save_pdf_report e now file_path analysis w of
             (Inl err, w') \<Rightarrow> (Inl err, w')
           | (Inr u, w') \<Rightarrow>
               (Inr (), w'\<lparr>dialogs := dialogs w' @
                  [ShowInfo ''Success'' ''Report saved successfully!'']\<rparr>))"

definition clear_chat_multi :: "bool \<Rightarrow> app_multi \<Rightarrow> app_multi" where
  "clear_chat_multi confirm w =
     (if confirm then
        w\<lparr>conversation_messages := [], candidate_resumes := [], interview_suggestions := [],
          chat_display := [], resume_listbox := [], suggestion_text := [],
          current_sender := ''Recruiter'',
          status_label := ''Please load job description and resume''\<rparr>
      else w)"

section \<open>Notions the statements use\<close>

text \<open>A text in which no backslash is directly followed by another one.\<close>

fun no_double_backslash :: "string \<Rightarrow> bool" where
  "no_double_backslash (c # d # cs) =
     (\<not> (c = backslash \<and> d = backslash) \<and> no_double_backslash (d # cs))"
| "no_double_backslash cs = True"

text \<open>The pages that give text, in page order: the others are skipped.\<close>

fun extractable :: "string option list \<Rightarrow> string list" where
  "extractable [] = []"
| "extractable (None # pages) = extractable pages"
| "extractable (Some t # pages) =
     (if t \<noteq> [] then t # extractable pages else extractable pages)"

text \<open>
  The loader of a PDF as the specification words it: the pages that give text, joined by
  single line feeds, with the whitespace at the end removed.
\<close>

definition rstrip :: "string \<Rightarrow> string" where
  "rstrip s = rev (dropWhile isspace (rev s))"

definition spec_pdf_text :: "string option list \<Rightarrow> string" where
  "spec_pdf_text pages = rstrip (join [newline] (extractable pages))"

text \<open>
  An environment and a clock reading for the closed examples: a model that answers every
  prompt with the same text, an embedding that sends the job description and every other
  text to opposite unit vectors (so a score is 10 or -10, and \<open>format_1f\<close> is given on
  these two), a PDF of four pages and a text file whose line ends with a carriage return
  and a line feed.
\<close>

definition demo_env :: env where
  "demo_env =
     \<lparr>llm_invoke = (\<lambda>prompt. Inr '' Which dashboards did you build? ''),
      encode = (\<lambda>t. if t = ''Data analyst'' then [1] else [- 1]),
      format_1f = (\<lambda>x. if x = - 10 then ''-10.0'' else ''10.0''),
      pdf_open = (\<lambda>path. if path = ''cv.pdf''
                    then Inr [Some '' Ada'', None, Some [], Some ''Lovelace '']
                    else Inl (Exception ''no such file'')),
      decoded_contents = (\<lambda>path. if path = ''jd.txt''
                            then Inr ('' Data analyst'' @ [carriage_return, newline])
                            else Inl (Exception ''no such file'')),
      open_write = (\<lambda>path. None)\<rparr>"

definition noon :: datetime where
  "noon = \<lparr>year = 2025, month = 3, day = 7, hour = 12, minute = 5, second = 9\<rparr>"

text \<open>
  Sessions for the closed examples: both documents loaded and a conversation of two
  messages, in each program; the same with five messages; and a model whose every call
  raises.
\<close>

definition demo_messages :: "msg list" where
  "demo_messages =
     [\<lparr>sender = ''Recruiter'', message = ''Tell me about SQL.'', timestamp = ''12:05:09''\<rparr>,
      \<lparr>sender = ''Candidate'', message = ''I use it daily.'', timestamp = ''12:06:10''\<rparr>]"

definition demo_app :: app where
  "demo_app =
     initial_app\<lparr>conversation_messages := demo_messages,
       job_description := ''Data analyst'', candidate_resume := ''Ada''\<rparr>"

definition demo_app_multi :: app_multi where
  "demo_app_multi =
     initial_app_multi\<lparr>conversation_messages := demo_messages,
       job_description := ''Data analyst'', candidate_resumes := [''Ada''],
       interview_suggestions := [''Which tools?'']\<rparr>"

definition demo_app5 :: app where
  "demo_app5 =
     demo_app\<lparr>conversation_messages := demo_messages @ demo_messages @ [hd demo_messages]\<rparr>"

definition failing_env :: env where
  "failing_env = demo_env\<lparr>llm_invoke := (\<lambda>prompt. Inl (Exception ''timeout''))\<rparr>"

section \<open>Properties of the string functions\<close>

lemma re_sub_without_backslash: "backslash \<notin> set s \<Longrightarrow> re_sub s = s"
  by (induction s) auto

lemma filter_dropWhile_backslash:
  "filter (\<lambda>c. c \<noteq> backslash) (dropWhile (\<lambda>x. x = backslash) s) = filter (\<lambda>c. c \<noteq> backslash) s"
  by (induction s) auto

lemma filter_re_sub:
  "filter (\<lambda>c. c \<noteq> backslash) (re_sub s) = filter (\<lambda>c. c \<noteq> backslash) s"
proof (induction s rule: re_sub.induct)
  case 1
  show ?case by simp
next
  case (2 c cs)
  show ?case
  proof (cases "c = backslash")
    case False
    with "2.IH"(1) show ?thesis by simp
  next
    case True
    note c = this
    show ?thesis
    proof (cases cs)
      case Nil
      with c show ?thesis by simp
    next
      case (Cons d ds)
      show ?thesis
      proof (cases "d = newline")
        case True
        with c Cons "2.IH"(2) show ?thesis by simp
      next
        case False
        with c Cons "2.IH"(3) show ?thesis
          by (simp add: filter_dropWhile_backslash)
      qed
    qed
  qed
qed

lemma no_double_backslash_tl: "no_double_backslash (c # cs) \<Longrightarrow> no_double_backslash cs"
  by (cases cs) auto

lemma no_double_backslash_dropWhile:
  "no_double_backslash s \<Longrightarrow> no_double_backslash (dropWhile P s)"
  by (induction s) (auto dest: no_double_backslash_tl)

lemma re_sub_no_backslash_left:
  "no_double_backslash s \<Longrightarrow> backslash \<notin> set (re_sub s)"
proof (induction s rule: re_sub.induct)
  case 1
  then show ?case by simp
next
  case (2 c cs)
  show ?case
  proof (cases "c = backslash")
    case False
    with 2 show ?thesis
      by (auto dest: no_double_backslash_tl)
  next
    case True
    note c = this
    show ?thesis
    proof (cases cs)
      case Nil
      with c show ?thesis by simp
    next
      case (Cons d ds)
      from "2.prems" c Cons have d: "d \<noteq> backslash"
        by auto
      from "2.prems" have tl: "no_double_backslash cs"
        by (rule no_double_backslash_tl)
      show ?thesis
      proof (cases "d = newline")
        case True
        with c Cons tl "2.IH"(2) show ?thesis
          by simp
      next
        case False
        from tl Cons have "no_double_backslash ds"
          by (auto dest: no_double_backslash_tl)
        then have "no_double_backslash (dropWhile (\<lambda>x. x = backslash) ds)"
          by (rule no_double_backslash_dropWhile)
        with c Cons False d "2.IH"(3) show ?thesis
          by simp
      qed
    qed
  qed
qed

lemma set_strip: "set (strip s) \<subseteq> set s"
proof
  fix c
  assume "c \<in> set (strip s)"
  then have "c \<in> set (dropWhile isspace (rev (dropWhile isspace s)))"
    by (simp add: strip_def)
  then have "c \<in> set (rev (dropWhile isspace s))"
    by (rule set_dropWhileD)
  then have "c \<in> set (dropWhile isspace s)"
    by simp
  then show "c \<in> set s"
    by (rule set_dropWhileD)
qed

lemma last_dropWhile_ne: "dropWhile P xs \<noteq> [] \<Longrightarrow> last (dropWhile P xs) = last xs"
  by (induction xs) (auto split: if_splits)

lemma strip_ends:
  assumes "strip s \<noteq> []"
  shows "\<not> isspace (hd (strip s)) \<and> \<not> isspace (last (strip s))"
proof -
  let ?a = "dropWhile isspace s"
  let ?b = "dropWhile isspace (rev ?a)"
  from assms have b: "?b \<noteq> []"
    by (simp add: strip_def)
  have a: "?a \<noteq> []"
  proof
    assume "?a = []"
    with b show False by simp
  qed
  have "last (strip s) = hd ?b"
    using b by (simp add: strip_def last_rev)
  moreover have "\<not> isspace (hd ?b)"
    using b by (rule hd_dropWhile)
  moreover have "hd (strip s) = last ?b"
    using b by (simp add: strip_def hd_rev)
  moreover have "last ?b = last (rev ?a)"
    using b by (rule last_dropWhile_ne)
  moreover have "last (rev ?a) = hd ?a"
    using a by (simp add: last_rev)
  moreover have "\<not> isspace (hd ?a)"
    using a by (rule hd_dropWhile)
  ultimately show ?thesis
    by simp
qed

lemma dropWhile_all_iff: "(\<forall>c \<in> set (dropWhile P xs). P c) \<longleftrightarrow> (\<forall>c \<in> set xs. P c)"
  by (induction xs) auto

lemma strip_Nil_iff: "strip s = [] \<longleftrightarrow> (\<forall>c \<in> set s. isspace c)"
proof -
  have "strip s = [] \<longleftrightarrow> (\<forall>c \<in> set (rev (dropWhile isspace s)). isspace c)"
    by (simp add: strip_def dropWhile_eq_Nil_conv)
  also have "\<dots> \<longleftrightarrow> (\<forall>c \<in> set s. isspace c)"
    by (simp add: dropWhile_all_iff)
  finally show ?thesis .
qed

lemma strip_append_space:
  assumes "isspace c"
  shows "strip (s @ [c]) = strip s"
proof (cases "\<forall>x \<in> set s. isspace x")
  case True
  with assms have "strip (s @ [c]) = []" and "strip s = []"
    by (simp_all add: strip_Nil_iff)
  then show ?thesis by simp
next
  case False
  then have "dropWhile isspace (s @ [c]) = dropWhile isspace s @ [c]"
    by (auto simp: dropWhile_append1)
  with assms show ?thesis
    by (simp add: strip_def)
qed

lemma pages_loop_eq:
  "pages_loop acc pages = acc @ concat (map (\<lambda>t. t @ [newline]) (extractable pages))"
  by (induction acc pages rule: pages_loop.induct) auto

lemma concat_lines_join:
  "ts \<noteq> [] \<Longrightarrow> concat (map (\<lambda>t. t @ [newline]) ts) = join [newline] ts @ [newline]"
  by (induction "[newline]" ts rule: join.induct) auto

lemma isspace_newline: "isspace newline"
  by (simp add: isspace_def newline_def)

lemma strip_pages_loop: "strip (pages_loop [] pages) = strip (join [newline] (extractable pages))"
proof (cases "extractable pages = []")
  case True
  then show ?thesis by (simp add: pages_loop_eq)
next
  case False
  then show ?thesis
    by (simp add: pages_loop_eq concat_lines_join strip_append_space isspace_newline)
qed

lemma strip_text_get: "strip (text_get typed) = strip typed"
  by (simp add: text_get_def strip_append_space isspace_newline)

lemma isdigit_digit_char: "d < 10 \<Longrightarrow> isdigit (digit_char d)"
  unfolding isdigit_def digit_char_def by (rule nth_mem) simp

lemma show_nat_one: "n < 10 \<Longrightarrow> show_nat n = [digit_char n]"
  by (simp add: show_nat.simps)

lemma show_nat_two:
  "10 \<le> n \<Longrightarrow> n < 100 \<Longrightarrow> show_nat n = [digit_char (n div 10), digit_char (n mod 10)]"
  by (subst show_nat.simps) (simp add: show_nat_one)

lemma pad2_two:
  "n < 100 \<Longrightarrow> \<exists>a b. pad2 n = [a, b] \<and> isdigit a \<and> isdigit b"
proof (cases "n < 10")
  case True
  then have "pad2 n = [CHR ''0'', digit_char n]"
    by (simp add: pad2_def show_nat_one)
  moreover have "isdigit CHR ''0''"
    by (simp add: isdigit_def)
  ultimately show ?thesis
    using True by (simp add: isdigit_digit_char)
next
  case False
  assume "n < 100"
  with False have "pad2 n = [digit_char (n div 10), digit_char (n mod 10)]"
    by (simp add: pad2_def show_nat_two)
  moreover from \<open>n < 100\<close> have "n div 10 < 10"
    by simp
  ultimately show ?thesis
    by (simp add: isdigit_digit_char)
qed

lemma is_HMS_strftime:
  assumes "hour t < 100" and "minute t < 100" and "second t < 100"
  shows "is_HMS (strftime_HMS t)"
proof -
  from assms(1) obtain h1 h2 where h: "pad2 (hour t) = [h1, h2]" "isdigit h1" "isdigit h2"
    using pad2_two by blast
  from assms(2) obtain m1 m2 where m: "pad2 (minute t) = [m1, m2]" "isdigit m1" "isdigit m2"
    using pad2_two by blast
  from assms(3) obtain s1 s2 where s: "pad2 (second t) = [s1, s2]" "isdigit s1" "isdigit s2"
    using pad2_two by blast
  from h m s show ?thesis
    by (simp add: is_HMS_def strftime_HMS_def)
qed

lemma dot_commute: "dot u v = dot v u"
  unfolding dot_def
proof (induction u arbitrary: v)
  case Nil
  show ?case by simp
next
  case (Cons x u)
  show ?case
    by (cases v) (simp_all add: Cons.IH mult.commute)
qed

lemma pytorch_cos_sim_commute: "pytorch_cos_sim u v = pytorch_cos_sim v u"
  by (simp add: pytorch_cos_sim_def dot_commute [of u v] mult.commute)

lemma split_blank_acc_nonempty: "split_blank_acc cur s \<noteq> []"
  by (induction cur s rule: split_blank_acc.induct) auto

lemma join_split_blank_acc:
  "join [newline, newline] (split_blank_acc cur s) = cur @ s"
proof (induction cur s rule: split_blank_acc.induct)
  case (1 cur)
  show ?case by simp
next
  case (2 cur c)
  show ?case by simp
next
  case (3 cur c d cs)
  show ?case
  proof (cases "c = newline \<and> d = newline")
    case True
    obtain p ps where "split_blank_acc [] cs = p # ps"
      using split_blank_acc_nonempty [of "[]" cs] by (cases "split_blank_acc [] cs") auto
    with True "3.IH"(1) show ?thesis
      by auto
  next
    case False
    with "3.IH"(2) show ?thesis
      by auto
  qed
qed

section \<open>Properties of the operations\<close>

lemma job_description_update_status [simp]:
  "job_description (update_status e w) = job_description w"
  by (simp add: update_status_def)

lemma candidate_resume_update_status [simp]:
  "candidate_resume (update_status e w) = candidate_resume w"
  by (simp add: update_status_def)

lemma job_description_update_status_multi [simp]:
  "job_description (update_status_multi e w) = job_description w"
  by (simp add: update_status_multi_def)

lemma candidate_resumes_update_status_multi [simp]:
  "candidate_resumes (update_status_multi e w) = candidate_resumes w"
  by (simp add: update_status_multi_def)

lemma generate_dynamic_interview_suggestion_frame:
  "conversation_messages (snd (generate_dynamic_interview_suggestion e w)) =
     conversation_messages w \<and>
   job_description (snd (generate_dynamic_interview_suggestion e w)) = job_description w \<and>
   candidate_resumes (snd (generate_dynamic_interview_suggestion e w)) = candidate_resumes w \<and>
   interview_suggestions (snd (generate_dynamic_interview_suggestion e w)) =
     interview_suggestions w"
  by (simp add: generate_dynamic_interview_suggestion_def Let_def split: sum.splits exn.splits)

lemma send_message_multi_messages:
  assumes "strip (message_input w) \<noteq> []"
  shows "conversation_messages (send_message_multi e now w) =
     conversation_messages w @
       [\<lparr>sender = current_sender w, message = strip (message_input w),
         timestamp = strftime_HMS now\<rparr>]"
proof -
  define w2 where "w2 =
    w\<lparr>conversation_messages := conversation_messages w @
          [\<lparr>sender = current_sender w, message = strip (message_input w),
            timestamp = strftime_HMS now\<rparr>],
      chat_display := chat_display w @
          ''['' @ strftime_HMS now @ ''] '' @ current_sender w @ '': '' @
          strip (message_input w) @ [newline, newline]\<rparr>"
  obtain r w' where g: "generate_dynamic_interview_suggestion e w2 = (r, w')"
    by (cases "generate_dynamic_interview_suggestion e w2")
  from generate_dynamic_interview_suggestion_frame [of e w2] g
  have "conversation_messages w' = conversation_messages w2"
    by simp
  with assms g show ?thesis
    by (simp add: send_message_multi_def Let_def strip_text_get w2_def split: option.splits)
qed

lemma analyze_conversation_calls_model:
  assumes "job_description w \<noteq> []" and "candidate_resume w \<noteq> []"
    and "3 \<le> length (conversation_messages w)"
  shows "llm_prompts (snd (analyze_conversation e w)) =
     llm_prompts w @
       [fit_prompt (job_description w) (candidate_resume w)
          (transcript (conversation_messages w))]"
  using assms
  by (simp add: analyze_conversation_def analyze_candidate_fit_def show_analysis_results_def
      Let_def split: sum.splits)

lemma analyze_conversation_multi_calls_model:
  assumes "job_description w \<noteq> []" and "candidate_resumes w \<noteq> []"
    and "3 \<le> length (conversation_messages w)"
  shows "llm_prompts (snd (analyze_conversation_multi e w)) \<noteq> llm_prompts w"
  using assms
  by (simp add: analyze_conversation_multi_def analyze_candidate_fit_multi_def
      generate_interview_questions_def show_analysis_results_multi_def Let_def
      split: sum.splits)

lemma last3_length: "length (last3 xs) \<le> 3"
  by (simp add: last3_def)

lemma last3_suffix: "suffix (last3 xs) xs"
  unfolding last3_def by (rule suffix_drop)

lemma last3_append: "length recent = 3 \<Longrightarrow> last3 (older @ recent) = recent"
  by (simp add: last3_def)

lemma generate_dynamic_interview_suggestion_prompt:
  assumes "2 \<le> length (conversation_messages w)" and "job_description w \<noteq> []"
    and "candidate_resumes w \<noteq> []"
  shows "llm_prompts (snd (generate_dynamic_interview_suggestion e w)) =
     llm_prompts w @
       [suggestion_prompt (job_description w) (transcript (last3 (conversation_messages w)))]"
  using assms
  by (simp add: generate_dynamic_interview_suggestion_def Let_def transcript_def
      split: sum.splits exn.splits)

lemma generate_dynamic_interview_suggestion_failure:
  assumes "llm_invoke e
     (suggestion_prompt (job_description w) (transcript (last3 (conversation_messages w)))) =
     Inl err"
  shows "fst (generate_dynamic_interview_suggestion e w) = None"
  using assms
  by (simp add: generate_dynamic_interview_suggestion_def Let_def transcript_def
      split: sum.splits exn.splits)

lemma generate_dynamic_interview_suggestion_all_fail:
  assumes "\<forall>prompt. isl (llm_invoke e prompt)"
  shows "fst (generate_dynamic_interview_suggestion e w) = None"
proof -
  let ?p = "suggestion_prompt (job_description w) (transcript (last3 (conversation_messages w)))"
  from assms have "isl (llm_invoke e ?p)" ..
  then obtain err where "llm_invoke e ?p = Inl err"
    by (cases "llm_invoke e ?p") auto
  then show ?thesis
    by (rule generate_dynamic_interview_suggestion_failure)
qed

lemma send_message_multi_suggestions:
  assumes "\<forall>prompt. isl (llm_invoke e prompt)"
  shows "interview_suggestions (send_message_multi e now w) = interview_suggestions w"
proof (cases "strip (message_input w) = []")
  case True
  then show ?thesis
    by (simp add: send_message_multi_def strip_text_get)
next
  case False
  define w2 where "w2 =
    w\<lparr>conversation_messages := conversation_messages w @
          [\<lparr>sender = current_sender w, message = strip (message_input w),
            timestamp = strftime_HMS now\<rparr>],
      chat_display := chat_display w @
          ''['' @ strftime_HMS now @ ''] '' @ current_sender w @ '': '' @
          strip (message_input w) @ [newline, newline]\<rparr>"
  obtain r w' where g: "generate_dynamic_interview_suggestion e w2 = (r, w')"
    by (cases "generate_dynamic_interview_suggestion e w2")
  from generate_dynamic_interview_suggestion_all_fail [OF assms, of w2] g have r: "r = None"
    by simp
  from generate_dynamic_interview_suggestion_frame [of e w2] g
  have "interview_suggestions w' = interview_suggestions w2"
    by simp
  with False g r show ?thesis
    by (simp add: send_message_multi_def Let_def strip_text_get w2_def)
qed

lemma sublist_middle: "sublist xs (ps @ xs @ ss)"
  by (rule sublist_appendI)

lemma join_split_blank: "join [newline, newline] (split_blank s) = s"
  by (simp add: split_blank_def join_split_blank_acc)

lemma report_metadata_date:
  "sublist (''Date: '' @ strftime_YmdHM now) (report_metadata e now w)"
proof -
  have "report_metadata e now w =
      (''\<newline>'' @ ''CANDIDATE EVALUATION REPORT\<newline>'') @
      (''Date: '' @ strftime_YmdHM now) @
      (''\<newline>'' @
       ''Messages analyzed: '' @ show_nat (length (conversation_messages w)) @ ''\<newline>'' @
       ''Initial resume match score: '' @
       format_1f e (calculate_match_score e (job_description w) (candidate_resume w)) @
       ''/10\<newline>'' @ ''\<newline>'' @ ''--- ANALYSIS RESULTS ---\<newline>'' @ ''\<newline>'')"
    by (simp add: report_metadata_def)
  then show ?thesis
    by (simp only: sublist_middle)
qed

lemma report_metadata_count:
  "sublist (''Messages analyzed: '' @ show_nat (length (conversation_messages w)) @ [newline])
     (report_metadata e now w)"
proof -
  have "report_metadata e now w =
      (''\<newline>'' @ ''CANDIDATE EVALUATION REPORT\<newline>'' @
       ''Date: '' @ strftime_YmdHM now @ ''\<newline>'') @
      (''Messages analyzed: '' @ show_nat (length (conversation_messages w)) @ [newline]) @
      (''Initial resume match score: '' @
       format_1f e (calculate_match_score e (job_description w) (candidate_resume w)) @
       ''/10\<newline>'' @ ''\<newline>'' @ ''--- ANALYSIS RESULTS ---\<newline>'' @ ''\<newline>'')"
    by (simp add: report_metadata_def newline_def)
  then show ?thesis
    by (simp only: sublist_middle)
qed

lemma report_metadata_score:
  "sublist
     (''Initial resume match score: '' @
      format_1f e (calculate_match_score e (job_description w) (candidate_resume w)) @ ''/10'')
     (report_metadata e now w)"
proof -
  have "report_metadata e now w =
      (''\<newline>'' @ ''CANDIDATE EVALUATION REPORT\<newline>'' @
       ''Date: '' @ strftime_YmdHM now @ ''\<newline>'' @
       ''Messages analyzed: '' @ show_nat (length (conversation_messages w)) @ ''\<newline>'') @
      (''Initial resume match score: '' @
       format_1f e (calculate_match_score e (job_description w) (candidate_resume w)) @ ''/10'') @
      (''\<newline>'' @ ''\<newline>'' @ ''--- ANALYSIS RESULTS ---\<newline>'' @ ''\<newline>'')"
    by (simp add: report_metadata_def)
  then show ?thesis
    by (simp only: sublist_middle)
qed

lemma newline_not_carriage_return: "newline \<noteq> carriage_return"
  by (simp add: newline_def carriage_return_def)

lemma universal_newlines_without_carriage_return:
  "carriage_return \<notin> set s \<Longrightarrow> universal_newlines s = s"
  by (induction s rule: universal_newlines.induct) auto

lemma universal_newlines_no_carriage_return:
  "carriage_return \<notin> set (universal_newlines s)"
  by (induction s rule: universal_newlines.induct)
    (auto simp: newline_not_carriage_return newline_not_carriage_return [symmetric])

lemma universal_newlines_other_characters:
  "filter (\<lambda>c. c \<noteq> carriage_return \<and> c \<noteq> newline) (universal_newlines s) =
   filter (\<lambda>c. c \<noteq> carriage_return \<and> c \<noteq> newline) s"
proof (induction s rule: universal_newlines.induct)
  case 1
  show ?case by simp
next
  case (2 c)
  show ?case by simp
next
  case (3 c d cs)
  show ?case
  proof (cases "c = carriage_return")
    case False
    with "3.IH"(3) show ?thesis by simp
  next
    case True
    note c = this
    show ?thesis
    proof (cases "d = newline")
      case True
      with c "3.IH"(1) show ?thesis by simp
    next
      case False
      with c "3.IH"(2) show ?thesis by simp
    qed
  qed
qed

section \<open>Text without backslashes\<close>

text \<open>
  C10. A response that holds no backslash leaves the cleanup as it came, but for the
  whitespace trimmed at both ends: the pattern finds no match. Markdown markers such as
  \<open>**bold**\<close> therefore pass through.
\<close>

theorem cleanup_without_backslash:
  "backslash \<notin> set content \<Longrightarrow> cleanup content = strip content"
  by (simp add: cleanup_def re_sub_without_backslash)

theorem cleanup_without_backslash_witness:
  "backslash \<notin> set ''  **bold** text '' \<and> cleanup ''  **bold** text '' = ''**bold** text''"
proof -
  have h: "backslash \<notin> set ''  **bold** text ''"
    by (simp add: backslash_def)
  have "strip ''  **bold** text '' = ''**bold** text''"
    by (simp add: strip_def isspace_def)
  with h cleanup_without_backslash [OF h] show ?thesis
    by simp
qed

section \<open>What the cleanup removes\<close>

text \<open>
  The response \<open>\*bold\*\<close> is cleaned to \<open>*bold*\<close>: both asterisks are still there. A
  response that starts with two backslashes, \<open>\\*bold\*\<close>, keeps one of them, so the
  cleaned text begins with a backslash and an asterisk.
\<close>

theorem cleanup_keeps_asterisks_counterexample:
  "cleanup (backslash # ''*bold'' @ [backslash, asterisk]) = ''*bold*'' \<and>
   asterisk \<in> set (cleanup (backslash # ''*bold'' @ [backslash, asterisk])) \<and>
   cleanup ([backslash, backslash] @ ''*bold'' @ [backslash, asterisk]) = backslash # ''*bold*''"
  by (simp add: cleanup_def strip_def isspace_def backslash_def newline_def asterisk_def)

text \<open>
  C2, as the code has it. The cleanup replaces every match (a backslash, the character
  after it unless that is a line feed, and the backslashes that follow) by that
  character, then trims the whitespace at both ends. So the substitution deletes
  backslashes and nothing else: every other character, asterisks included, stays, in
  order. When no backslash of the response is directly followed by another one, the
  cleaned text holds no backslash at all. The cleaned text neither starts nor ends with
  whitespace.
\<close>

theorem cleanup_deletes_backslashes_only:
  "cleanup content = strip (re_sub content) \<and>
   filter (\<lambda>c. c \<noteq> backslash) (re_sub content) = filter (\<lambda>c. c \<noteq> backslash) content \<and>
   (no_double_backslash content \<longrightarrow> backslash \<notin> set (cleanup content)) \<and>
   (cleanup content = [] \<or>
    \<not> isspace (hd (cleanup content)) \<and> \<not> isspace (last (cleanup content)))"
proof (intro conjI impI)
  show "cleanup content = strip (re_sub content)"
    by (simp add: cleanup_def)
  show "filter (\<lambda>c. c \<noteq> backslash) (re_sub content) = filter (\<lambda>c. c \<noteq> backslash) content"
    by (rule filter_re_sub)
  show "backslash \<notin> set (cleanup content)" if "no_double_backslash content"
    using that re_sub_no_backslash_left [of content] set_strip [of "re_sub content"]
    by (auto simp: cleanup_def)
  show "cleanup content = [] \<or>
    \<not> isspace (hd (cleanup content)) \<and> \<not> isspace (last (cleanup content))"
    using strip_ends [of "re_sub content"] by (auto simp: cleanup_def)
qed

theorem cleanup_deletes_backslashes_only_witness:
  "no_double_backslash (backslash # ''*bold'' @ [backslash, asterisk]) \<and>
   cleanup (backslash # ''*bold'' @ [backslash, asterisk]) = ''*bold*'' \<and>
   backslash \<notin> set (cleanup (backslash # ''*bold'' @ [backslash, asterisk])) \<and>
   filter (\<lambda>c. c \<noteq> backslash) (re_sub (backslash # ''*bold'' @ [backslash, asterisk])) = ''*bold*''"
proof -
  let ?s = "backslash # ''*bold'' @ [backslash, asterisk]"
  have h: "no_double_backslash ?s"
    by (simp add: backslash_def asterisk_def)
  have v: "cleanup ?s = ''*bold*''"
    by (simp add: cleanup_def strip_def isspace_def backslash_def newline_def asterisk_def)
  have f: "filter (\<lambda>c. c \<noteq> backslash) ?s = ''*bold*''"
    by (simp add: backslash_def asterisk_def)
  note t = cleanup_deletes_backslashes_only [of ?s]
  from t h have b: "backslash \<notin> set (cleanup ?s)"
    by (elim conjE) (rule mp)
  from t have "filter (\<lambda>c. c \<noteq> backslash) (re_sub ?s) = filter (\<lambda>c. c \<noteq> backslash) ?s"
    by (elim conjE)
  with f have g: "filter (\<lambda>c. c \<noteq> backslash) (re_sub ?s) = ''*bold*''"
    by (rule trans [rotated])
  from h v b g show ?thesis
    by (intro conjI)
qed

section \<open>Properties of the match score\<close>

text \<open>
  C8. The score of two texts does not depend on their order: the embedding is a function
  of the text, and the cosine similarity is symmetric.
\<close>

theorem calculate_match_score_symmetric:
  "calculate_match_score e a b = calculate_match_score e b a"
  by (simp add: calculate_match_score_def pytorch_cos_sim_commute [of "encode e a"])

theorem calculate_match_score_symmetric_witness:
  "calculate_match_score demo_env ''Data analyst'' ''Ada'' = - 10 \<and>
   calculate_match_score demo_env ''Ada'' ''Data analyst'' = - 10"
proof -
  have "calculate_match_score demo_env ''Data analyst'' ''Ada'' = - 10"
    by (simp add: calculate_match_score_def demo_env_def pytorch_cos_sim_def l2_norm_def dot_def)
  with calculate_match_score_symmetric [of demo_env "''Data analyst''" "''Ada''"]
  show ?thesis by simp
qed

text \<open>
  C3. The score is ten times the cosine similarity, with no clamping, although the
  comment in the source announces a scale from 0 to 10: two texts whose embeddings point
  in opposite directions have the similarity -1 and the score -10.
\<close>

theorem calculate_match_score_negative:
  "pytorch_cos_sim (encode demo_env ''Data analyst'') (encode demo_env ''Ada'') = - 1 \<and>
   calculate_match_score demo_env ''Data analyst'' ''Ada'' = - 10"
  by (simp add: calculate_match_score_def demo_env_def pytorch_cos_sim_def l2_norm_def dot_def)

section \<open>What the loader returns\<close>

text \<open>
  A PDF whose first page starts with a space: the loader removes that space as well, so
  its result is not the pages joined by line feeds with only the end trimmed. A text file
  whose line ends with a carriage return and a line feed: the loader returns the line
  with a line feed alone, so its result is not the decoded contents as they are.
\<close>

theorem load_document_trims_and_translates_counterexample:
  "pdf_open demo_env ''cv.pdf'' = Inr [Some '' Ada'', None, Some [], Some ''Lovelace ''] \<and>
   load_document demo_env ''cv.pdf'' = Inr (''Ada'' @ [newline] @ ''Lovelace'') \<and>
   spec_pdf_text [Some '' Ada'', None, Some [], Some ''Lovelace ''] =
     '' Ada'' @ [newline] @ ''Lovelace'' \<and>
   decoded_contents demo_env ''jd.txt'' = Inr ('' Data analyst'' @ [carriage_return, newline]) \<and>
   load_document demo_env ''jd.txt'' = Inr ('' Data analyst'' @ [newline])"
  by (simp add: demo_env_def load_document_def endswith_def extract_text_from_pdf_def
      strip_def isspace_def newline_def spec_pdf_text_def rstrip_def open_read_def
      carriage_return_def)

text \<open>
  C4, as the code has it. For a path that ends in \<open>.pdf\<close> the loader returns the pages
  that give text, in page order, joined by single line feeds, with the whitespace removed
  at both ends of the result: the result neither starts nor ends with whitespace. Pages that
  give no text are skipped. For any other path the loader returns the contents of the file
  decoded as UTF-8 with the line endings translated, as Python's text mode does: a
  carriage return followed by a line feed, and a carriage return alone, each become one
  line feed, so the result holds no carriage return; every other character is kept, in
  order, and contents without a carriage return are returned exactly. A file that cannot
  be opened or decoded raises. The load operations store the text returned as the job
  description, or as the resume (appended to the resumes in the variant with several).
\<close>

theorem load_document_pdf_and_text:
  "(endswith file_path ''.pdf'' \<longrightarrow> pdf_open e file_path = Inr pages \<longrightarrow>
      load_document e file_path = Inr (strip (join [newline] (extractable pages)))) \<and>
   (endswith file_path ''.pdf'' \<longrightarrow> load_document e file_path = Inr doc \<longrightarrow>
      doc = [] \<or> \<not> isspace (hd doc) \<and> \<not> isspace (last doc)) \<and>
   (\<not> endswith file_path ''.pdf'' \<longrightarrow> decoded_contents e file_path = Inr decoded \<longrightarrow>
      load_document e file_path = Inr (universal_newlines decoded)) \<and>
   (\<not> endswith file_path ''.pdf'' \<longrightarrow> decoded_contents e file_path = Inr decoded \<longrightarrow>
      carriage_return \<notin> set decoded \<longrightarrow> load_document e file_path = Inr decoded) \<and>
   (\<not> endswith file_path ''.pdf'' \<longrightarrow> decoded_contents e file_path = Inl err \<longrightarrow>
      load_document e file_path = Inl err) \<and>
   carriage_return \<notin> set (universal_newlines decoded) \<and>
   filter (\<lambda>c. c \<noteq> carriage_return \<and> c \<noteq> newline) (universal_newlines decoded) =
     filter (\<lambda>c. c \<noteq> carriage_return \<and> c \<noteq> newline) decoded \<and>
   universal_newlines (before @ [carriage_return, newline]) =
     universal_newlines before @ [newline] \<and>
   (file_path \<noteq> [] \<longrightarrow> load_document e file_path = Inr doc \<longrightarrow>
      job_description (snd (load_job_description e file_path w)) = doc \<and>
      candidate_resume (snd (load_candidate_resume e file_path w)) = doc \<and>
      job_description (snd (load_job_description_multi e file_path wm)) = doc \<and>
      candidate_resumes (snd (load_candidate_resume_multi e file_path wm)) =
        candidate_resumes wm @ [doc])"
proof (intro conjI impI)
  show "load_document e file_path = Inr (strip (join [newline] (extractable pages)))"
    if "endswith file_path ''.pdf''" and "pdf_open e file_path = Inr pages"
    using that by (simp add: load_document_def extract_text_from_pdf_def strip_pages_loop)
  show "doc = [] \<or> \<not> isspace (hd doc) \<and> \<not> isspace (last doc)"
    if "endswith file_path ''.pdf''" and "load_document e file_path = Inr doc"
  proof -
    from that obtain pages where "doc = strip (pages_loop [] pages)"
      by (auto simp: load_document_def extract_text_from_pdf_def split: sum.splits)
    then show ?thesis
      using strip_ends [of "pages_loop [] pages"] by auto
  qed
  show "load_document e file_path = Inr (universal_newlines decoded)"
    if "\<not> endswith file_path ''.pdf''" and "decoded_contents e file_path = Inr decoded"
    using that by (simp add: load_document_def open_read_def)
  show "load_document e file_path = Inr decoded"
    if "\<not> endswith file_path ''.pdf''" and "decoded_contents e file_path = Inr decoded"
      and "carriage_return \<notin> set decoded"
    using that
    by (simp add: load_document_def open_read_def universal_newlines_without_carriage_return)
  show "load_document e file_path = Inl err"
    if "\<not> endswith file_path ''.pdf''" and "decoded_contents e file_path = Inl err"
    using that by (simp add: load_document_def open_read_def)
  show "carriage_return \<notin> set (universal_newlines decoded)"
    by (rule universal_newlines_no_carriage_return)
  show "filter (\<lambda>c. c \<noteq> carriage_return \<and> c \<noteq> newline) (universal_newlines decoded) =
     filter (\<lambda>c. c \<noteq> carriage_return \<and> c \<noteq> newline) decoded"
    by (rule universal_newlines_other_characters)
  show "universal_newlines (before @ [carriage_return, newline]) =
     universal_newlines before @ [newline]"
    by (induction before rule: universal_newlines.induct)
      (auto simp: newline_not_carriage_return newline_not_carriage_return [symmetric])
  show "job_description (snd (load_job_description e file_path w)) = doc"
    if "file_path \<noteq> []" and "load_document e file_path = Inr doc"
    using that by (simp add: load_job_description_def)
  show "candidate_resume (snd (load_candidate_resume e file_path w)) = doc"
    if "file_path \<noteq> []" and "load_document e file_path = Inr doc"
    using that by (simp add: load_candidate_resume_def)
  show "job_description (snd (load_job_description_multi e file_path wm)) = doc"
    if "file_path \<noteq> []" and "load_document e file_path = Inr doc"
    using that by (simp add: load_job_description_multi_def)
  show "candidate_resumes (snd (load_candidate_resume_multi e file_path wm)) =
        candidate_resumes wm @ [doc]"
    if "file_path \<noteq> []" and "load_document e file_path = Inr doc"
    using that by (simp add: load_candidate_resume_multi_def)
qed

theorem load_document_pdf_and_text_witness:
  "endswith ''cv.pdf'' ''.pdf'' \<and>
   pdf_open demo_env ''cv.pdf'' = Inr [Some '' Ada'', None, Some [], Some ''Lovelace ''] \<and>
   load_document demo_env ''cv.pdf'' = Inr (''Ada'' @ [newline] @ ''Lovelace'') \<and>
   candidate_resume (snd (load_candidate_resume demo_env ''cv.pdf'' initial_app)) =
     ''Ada'' @ [newline] @ ''Lovelace'' \<and>
   \<not> endswith ''jd.txt'' ''.pdf'' \<and>
   decoded_contents demo_env ''jd.txt'' = Inr ('' Data analyst'' @ [carriage_return, newline]) \<and>
   load_document demo_env ''jd.txt'' = Inr ('' Data analyst'' @ [newline]) \<and>
   \<not> endswith ''notes.txt'' ''.pdf'' \<and>
   decoded_contents (demo_env\<lparr>decoded_contents := (\<lambda>path. Inr '' SQL, Python ''),
     pdf_open := (\<lambda>path. Inl (Exception ''not a PDF''))\<rparr>) ''notes.txt'' = Inr '' SQL, Python '' \<and>
   carriage_return \<notin> set '' SQL, Python '' \<and>
   load_document (demo_env\<lparr>decoded_contents := (\<lambda>path. Inr '' SQL, Python ''),
     pdf_open := (\<lambda>path. Inl (Exception ''not a PDF''))\<rparr>) ''notes.txt'' = Inr '' SQL, Python '' \<and>
   decoded_contents demo_env ''missing.txt'' = Inl (Exception ''no such file'') \<and>
   load_document demo_env ''missing.txt'' = Inl (Exception ''no such file'')"
proof -
  let ?pages = "[Some '' Ada'', None, Some [], Some ''Lovelace '']"
  let ?plain = "demo_env\<lparr>decoded_contents := (\<lambda>path. Inr '' SQL, Python ''),
     pdf_open := (\<lambda>path. Inl (Exception ''not a PDF''))\<rparr>"
  have a: "endswith ''cv.pdf'' ''.pdf''"
    by (simp add: endswith_def)
  have b: "pdf_open demo_env ''cv.pdf'' = Inr ?pages"
    by (simp add: demo_env_def)
  have c: "strip (join [newline] (extractable ?pages)) = ''Ada'' @ [newline] @ ''Lovelace''"
    by (simp add: strip_def isspace_def newline_def)
  note t = load_document_pdf_and_text [where file_path = "''cv.pdf''" and e = demo_env
      and pages = "?pages" and doc = "''Ada'' @ [newline] @ ''Lovelace''" and w = initial_app]
  from t a b c have d: "load_document demo_env ''cv.pdf'' = Inr (''Ada'' @ [newline] @ ''Lovelace'')"
    by simp
  have ne: "''cv.pdf'' \<noteq> []"
    by simp
  from t ne d have f: "candidate_resume (snd (load_candidate_resume demo_env ''cv.pdf'' initial_app)) =
     ''Ada'' @ [newline] @ ''Lovelace''"
    by blast
  have g: "\<not> endswith ''jd.txt'' ''.pdf''"
    by (simp add: endswith_def)
  have h: "decoded_contents demo_env ''jd.txt'' =
      Inr ('' Data analyst'' @ [carriage_return, newline])"
    by (simp add: demo_env_def)
  have u: "universal_newlines ('' Data analyst'' @ [carriage_return, newline]) =
      '' Data analyst'' @ [newline]"
    by (simp add: carriage_return_def newline_def)
  from load_document_pdf_and_text [where file_path = "''jd.txt''" and e = demo_env
      and decoded = "'' Data analyst'' @ [carriage_return, newline]"] g h
  have "load_document demo_env ''jd.txt'' =
      Inr (universal_newlines ('' Data analyst'' @ [carriage_return, newline]))"
    by blast
  with u have i: "load_document demo_env ''jd.txt'' = Inr ('' Data analyst'' @ [newline])"
    by simp
  have j: "\<not> endswith ''notes.txt'' ''.pdf''"
    by (simp add: endswith_def)
  have k: "decoded_contents ?plain ''notes.txt'' = Inr '' SQL, Python ''"
    by simp
  have l: "carriage_return \<notin> set '' SQL, Python ''"
    by (simp add: carriage_return_def)
  from load_document_pdf_and_text [where file_path = "''notes.txt''" and e = "?plain"
      and decoded = "'' SQL, Python ''"] j k l
  have m: "load_document ?plain ''notes.txt'' = Inr '' SQL, Python ''"
    by blast
  have n: "\<not> endswith ''missing.txt'' ''.pdf''"
    by (simp add: endswith_def)
  have o: "decoded_contents demo_env ''missing.txt'' = Inl (Exception ''no such file'')"
    by (simp add: demo_env_def)
  from load_document_pdf_and_text [where file_path = "''missing.txt''" and e = demo_env
      and err = "Exception ''no such file''"] n o
  have q: "load_document demo_env ''missing.txt'' = Inl (Exception ''no such file'')"
    by blast
  from a b d f g h i j k l m o q show ?thesis
    by (intro conjI)
qed

section \<open>Sending a message\<close>

text \<open>
  The text \<open>" Hello "\<close> is stored as \<open>"Hello"\<close>: the record does not hold the text as it
  was entered.
\<close>

theorem send_message_stores_stripped_counterexample:
  "message_input (initial_app\<lparr>message_input := '' Hello ''\<rparr>) = '' Hello '' \<and>
   map message
     (conversation_messages (send_message noon (initial_app\<lparr>message_input := '' Hello ''\<rparr>))) =
     [''Hello'']"
  by (simp add: send_message_def initial_app_def Let_def text_get_def strip_def isspace_def
      newline_def)

text \<open>
  C5, as the code has it. A text that is empty or only whitespace adds no record and
  changes nothing. Any other text adds exactly one record at the end of the conversation:
  its sender is the selected sender, its text is the text entered with the whitespace
  removed at both ends, its timestamp is the clock's time as \<open>HH:MM:SS\<close>; the earlier
  records are unchanged. The timestamp of a time of day is well-formed. Both programs
  behave so.
\<close>

theorem send_message_appends_one_record:
  "(strip (message_input w) = [] \<longrightarrow> send_message now w = w) \<and>
   (strip (message_input wm) = [] \<longrightarrow> send_message_multi e now wm = wm) \<and>
   (strip (message_input w) \<noteq> [] \<longrightarrow>
      conversation_messages (send_message now w) =
        conversation_messages w @
          [\<lparr>sender = current_sender w, message = strip (message_input w),
            timestamp = strftime_HMS now\<rparr>]) \<and>
   (strip (message_input wm) \<noteq> [] \<longrightarrow>
      conversation_messages (send_message_multi e now wm) =
        conversation_messages wm @
          [\<lparr>sender = current_sender wm, message = strip (message_input wm),
            timestamp = strftime_HMS now\<rparr>]) \<and>
   (valid_datetime now \<longrightarrow> is_HMS (strftime_HMS now))"
proof (intro conjI impI)
  show "send_message now w = w" if "strip (message_input w) = []"
    using that by (simp add: send_message_def strip_text_get)
  show "send_message_multi e now wm = wm" if "strip (message_input wm) = []"
    using that by (simp add: send_message_multi_def strip_text_get)
  show "conversation_messages (send_message now w) =
        conversation_messages w @
          [\<lparr>sender = current_sender w, message = strip (message_input w),
            timestamp = strftime_HMS now\<rparr>]" if "strip (message_input w) \<noteq> []"
    using that by (simp add: send_message_def Let_def strip_text_get)
  show "conversation_messages (send_message_multi e now wm) =
        conversation_messages wm @
          [\<lparr>sender = current_sender wm, message = strip (message_input wm),
            timestamp = strftime_HMS now\<rparr>]" if "strip (message_input wm) \<noteq> []"
    using that by (rule send_message_multi_messages)
  show "is_HMS (strftime_HMS now)" if "valid_datetime now"
    using that by (intro is_HMS_strftime) (simp_all add: valid_datetime_def)
qed

theorem send_message_appends_one_record_witness:
  "strip (message_input (initial_app\<lparr>message_input := ''   ''\<rparr>)) = [] \<and>
   send_message noon (initial_app\<lparr>message_input := ''   ''\<rparr>) =
     initial_app\<lparr>message_input := ''   ''\<rparr> \<and>
   strip (message_input (initial_app\<lparr>message_input := '' Hello ''\<rparr>)) \<noteq> [] \<and>
   conversation_messages (send_message noon (initial_app\<lparr>message_input := '' Hello ''\<rparr>)) =
     [\<lparr>sender = ''Recruiter'', message = ''Hello'', timestamp = ''12:05:09''\<rparr>] \<and>
   valid_datetime noon \<and> is_HMS ''12:05:09''"
proof -
  let ?blank = "initial_app\<lparr>message_input := ''   ''\<rparr>"
  let ?hello = "initial_app\<lparr>message_input := '' Hello ''\<rparr>"
  have a: "strip (message_input ?blank) = []"
    by (simp add: strip_def isspace_def)
  have b: "strip (message_input ?hello) = ''Hello''"
    by (simp add: strip_def isspace_def)
  have c: "valid_datetime noon"
    by (simp add: valid_datetime_def noon_def)
  have d: "strftime_HMS noon = ''12:05:09''"
    by (simp add: strftime_HMS_def noon_def pad2_def show_nat.simps digit_char_def)
  have i: "current_sender ?hello = ''Recruiter''" "conversation_messages ?hello = []"
    by (simp_all add: initial_app_def)
  note t1 = send_message_appends_one_record [where w = ?blank and now = noon]
  note t2 = send_message_appends_one_record [where w = ?hello and now = noon]
  from t1 a have r1: "send_message noon ?blank = ?blank"
    by blast
  from b have ne: "strip (message_input ?hello) \<noteq> []"
    by simp
  from t2 ne have "conversation_messages (send_message noon ?hello) =
     conversation_messages ?hello @
       [\<lparr>sender = current_sender ?hello, message = strip (message_input ?hello),
         timestamp = strftime_HMS noon\<rparr>]"
    by blast
  with b d i have r2: "conversation_messages (send_message noon ?hello) =
     [\<lparr>sender = ''Recruiter'', message = ''Hello'', timestamp = ''12:05:09''\<rparr>]"
    by simp
  from t2 c d have r3: "is_HMS ''12:05:09''"
    by simp
  from a r1 ne r2 c r3 show ?thesis
    by (intro conjI)
qed

section \<open>Asking for the analysis\<close>

text \<open>
  C1. When the job description is empty, or no resume is loaded, or the conversation holds
  fewer than three messages, \<open>analyze_conversation\<close> returns without a call of the
  language model (the list of prompts sent is as before) and leaves the conversation, the
  job description and the resumes as they were; it shows a message box and nothing else.
  Both programs behave so. With both documents and three messages the model is called
  (\<open>analyze_conversation_calls_model\<close>).
\<close>

theorem analyze_conversation_rejects:
  "(job_description w = [] \<or> candidate_resume w = [] \<or> length (conversation_messages w) < 3 \<longrightarrow>
      fst (analyze_conversation e w) = Inr () \<and>
      llm_prompts (snd (analyze_conversation e w)) = llm_prompts w \<and>
      conversation_messages (snd (analyze_conversation e w)) = conversation_messages w \<and>
      job_description (snd (analyze_conversation e w)) = job_description w \<and>
      candidate_resume (snd (analyze_conversation e w)) = candidate_resume w) \<and>
   (job_description wm = [] \<or> candidate_resumes wm = [] \<or>
    length (conversation_messages wm) < 3 \<longrightarrow>
      fst (analyze_conversation_multi e wm) = Inr () \<and>
      llm_prompts (snd (analyze_conversation_multi e wm)) = llm_prompts wm \<and>
      conversation_messages (snd (analyze_conversation_multi e wm)) = conversation_messages wm \<and>
      job_description (snd (analyze_conversation_multi e wm)) = job_description wm \<and>
      candidate_resumes (snd (analyze_conversation_multi e wm)) = candidate_resumes wm)"
proof (intro conjI impI)
  assume "job_description w = [] \<or> candidate_resume w = [] \<or> length (conversation_messages w) < 3"
  then consider "job_description w = [] \<or> candidate_resume w = []"
    | "job_description w \<noteq> []" "candidate_resume w \<noteq> []" "length (conversation_messages w) < 3"
    by blast
  then have "analyze_conversation e w =
      (Inr (), w\<lparr>dialogs := dialogs (snd (analyze_conversation e w))\<rparr>)"
    by cases (simp_all add: analyze_conversation_def)
  then have r: "fst (analyze_conversation e w) = Inr ()"
    and s: "snd (analyze_conversation e w) = w\<lparr>dialogs := dialogs (snd (analyze_conversation e w))\<rparr>"
    by (metis fst_conv, metis snd_conv)
  show "fst (analyze_conversation e w) = Inr ()" by (rule r)
  show "llm_prompts (snd (analyze_conversation e w)) = llm_prompts w"
    by (subst s) simp
  show "conversation_messages (snd (analyze_conversation e w)) = conversation_messages w"
    by (subst s) simp
  show "job_description (snd (analyze_conversation e w)) = job_description w"
    by (subst s) simp
  show "candidate_resume (snd (analyze_conversation e w)) = candidate_resume w"
    by (subst s) simp
next
  assume "job_description wm = [] \<or> candidate_resumes wm = [] \<or>
    length (conversation_messages wm) < 3"
  then consider "job_description wm = [] \<or> candidate_resumes wm = []"
    | "job_description wm \<noteq> []" "candidate_resumes wm \<noteq> []"
      "length (conversation_messages wm) < 3"
    by blast
  then have "analyze_conversation_multi e wm =
      (Inr (), wm\<lparr>dialogs := dialogs (snd (analyze_conversation_multi e wm))\<rparr>)"
    by cases (simp_all add: analyze_conversation_multi_def)
  then have r: "fst (analyze_conversation_multi e wm) = Inr ()"
    and s: "snd (analyze_conversation_multi e wm) =
      wm\<lparr>dialogs := dialogs (snd (analyze_conversation_multi e wm))\<rparr>"
    by (metis fst_conv, metis snd_conv)
  show "fst (analyze_conversation_multi e wm) = Inr ()" by (rule r)
  show "llm_prompts (snd (analyze_conversation_multi e wm)) = llm_prompts wm"
    by (subst s) simp
  show "conversation_messages (snd (analyze_conversation_multi e wm)) = conversation_messages wm"
    by (subst s) simp
  show "job_description (snd (analyze_conversation_multi e wm)) = job_description wm"
    by (subst s) simp
  show "candidate_resumes (snd (analyze_conversation_multi e wm)) = candidate_resumes wm"
    by (subst s) simp
qed

theorem analyze_conversation_rejects_witness:
  "length (conversation_messages demo_app) < 3 \<and>
   fst (analyze_conversation demo_env demo_app) = Inr () \<and>
   llm_prompts (snd (analyze_conversation demo_env demo_app)) = [] \<and>
   conversation_messages (snd (analyze_conversation demo_env demo_app)) = demo_messages \<and>
   candidate_resumes (initial_app_multi\<lparr>job_description := ''Data analyst''\<rparr>) = [] \<and>
   llm_prompts (snd (analyze_conversation_multi demo_env
     (initial_app_multi\<lparr>job_description := ''Data analyst''\<rparr>))) = []"
proof -
  let ?wm = "initial_app_multi\<lparr>job_description := ''Data analyst''\<rparr>"
  have a: "length (conversation_messages demo_app) < 3"
    by (simp add: demo_app_def demo_messages_def)
  have b: "candidate_resumes ?wm = []"
    by (simp add: initial_app_multi_def)
  have i: "llm_prompts demo_app = []" "conversation_messages demo_app = demo_messages"
    "llm_prompts ?wm = []"
    by (simp_all add: demo_app_def initial_app_def initial_app_multi_def)
  note t = analyze_conversation_rejects [where w = demo_app and wm = ?wm and e = demo_env]
  from t a have "fst (analyze_conversation demo_env demo_app) = Inr () \<and>
      llm_prompts (snd (analyze_conversation demo_env demo_app)) = llm_prompts demo_app \<and>
      conversation_messages (snd (analyze_conversation demo_env demo_app)) =
        conversation_messages demo_app"
    by blast
  with i have c: "fst (analyze_conversation demo_env demo_app) = Inr ()"
    "llm_prompts (snd (analyze_conversation demo_env demo_app)) = []"
    "conversation_messages (snd (analyze_conversation demo_env demo_app)) = demo_messages"
    by simp_all
  from t b have "llm_prompts (snd (analyze_conversation_multi demo_env ?wm)) = llm_prompts ?wm"
    by blast
  with i have d: "llm_prompts (snd (analyze_conversation_multi demo_env ?wm)) = []"
    by simp
  from a c b d show ?thesis
    by (intro conjI)
qed

section \<open>Clearing the chat\<close>

text \<open>
  C9. Once the user has confirmed, \<open>clear_chat\<close> empties the conversation, and in the
  variant with several resumes also the resumes and the suggestions; the job description
  stays as it was, in both programs, whatever the answer. When the user declines, nothing
  changes.
\<close>

theorem clear_chat_keeps_job_description:
  "conversation_messages (clear_chat True w) = [] \<and>
   job_description (clear_chat confirm w) = job_description w \<and>
   clear_chat False w = w \<and>
   conversation_messages (clear_chat_multi True wm) = [] \<and>
   candidate_resumes (clear_chat_multi True wm) = [] \<and>
   interview_suggestions (clear_chat_multi True wm) = [] \<and>
   job_description (clear_chat_multi confirm wm) = job_description wm \<and>
   clear_chat_multi False wm = wm"
  by (simp add: clear_chat_def clear_chat_multi_def)

theorem clear_chat_keeps_job_description_witness:
  "conversation_messages demo_app_multi \<noteq> [] \<and>
   candidate_resumes demo_app_multi \<noteq> [] \<and>
   interview_suggestions demo_app_multi \<noteq> [] \<and>
   conversation_messages (clear_chat True demo_app) = [] \<and>
   job_description (clear_chat True demo_app) = ''Data analyst'' \<and>
   conversation_messages (clear_chat_multi True demo_app_multi) = [] \<and>
   candidate_resumes (clear_chat_multi True demo_app_multi) = [] \<and>
   interview_suggestions (clear_chat_multi True demo_app_multi) = [] \<and>
   job_description (clear_chat_multi True demo_app_multi) = ''Data analyst''"
proof -
  have i: "conversation_messages demo_app_multi \<noteq> []" "candidate_resumes demo_app_multi \<noteq> []"
    "interview_suggestions demo_app_multi \<noteq> []"
    by (simp_all add: demo_app_multi_def demo_messages_def)
  have j: "job_description demo_app = ''Data analyst''"
    "job_description demo_app_multi = ''Data analyst''"
    by (simp_all add: demo_app_def demo_app_multi_def)
  note t = clear_chat_keeps_job_description
    [where w = demo_app and wm = demo_app_multi and confirm = True]
  from t j have k: "job_description (clear_chat True demo_app) = ''Data analyst''"
    "job_description (clear_chat_multi True demo_app_multi) = ''Data analyst''"
    by simp_all
  from t have l: "conversation_messages (clear_chat True demo_app) = []"
    "conversation_messages (clear_chat_multi True demo_app_multi) = []"
    "candidate_resumes (clear_chat_multi True demo_app_multi) = []"
    "interview_suggestions (clear_chat_multi True demo_app_multi) = []"
    by blast+
  from i k l show ?thesis
    by (intro conjI)
qed

section \<open>The suggestion after a message\<close>

text \<open>
  C6. \<open>generate_dynamic_interview_suggestion\<close> gives no suggestion, and does nothing
  else, when the conversation holds fewer than two messages, or the job description is
  empty, or no resume is loaded. Otherwise the one prompt it sends is built from the job
  description and the last three messages (all of them when there are fewer): messages
  before the last three do not reach the prompt. When the call of the model raises, the
  result is no suggestion; the function returns an optional text and has no way to raise.
  In every case the conversation, the job description, the resumes and the suggestions
  collected so far are as before; and when every call of the model raises, sending a
  message leaves the suggestions collected so far as they were.
\<close>

theorem generate_dynamic_interview_suggestion_degrades:
  "(length (conversation_messages w) < 2 \<or> job_description w = [] \<or> candidate_resumes w = [] \<longrightarrow>
      generate_dynamic_interview_suggestion e w = (None, w)) \<and>
   (2 \<le> length (conversation_messages w) \<and> job_description w \<noteq> [] \<and>
    candidate_resumes w \<noteq> [] \<longrightarrow>
      llm_prompts (snd (generate_dynamic_interview_suggestion e w)) =
        llm_prompts w @
          [suggestion_prompt (job_description w)
             (transcript (last3 (conversation_messages w)))]) \<and>
   length (last3 (conversation_messages w)) \<le> 3 \<and>
   suffix (last3 (conversation_messages w)) (conversation_messages w) \<and>
   (length recent = 3 \<longrightarrow> last3 (older @ recent) = recent) \<and>
   (llm_invoke e
      (suggestion_prompt (job_description w) (transcript (last3 (conversation_messages w)))) =
      Inl err \<longrightarrow>
      fst (generate_dynamic_interview_suggestion e w) = None) \<and>
   conversation_messages (snd (generate_dynamic_interview_suggestion e w)) =
     conversation_messages w \<and>
   job_description (snd (generate_dynamic_interview_suggestion e w)) = job_description w \<and>
   candidate_resumes (snd (generate_dynamic_interview_suggestion e w)) = candidate_resumes w \<and>
   interview_suggestions (snd (generate_dynamic_interview_suggestion e w)) =
     interview_suggestions w \<and>
   ((\<forall>prompt. isl (llm_invoke e prompt)) \<longrightarrow>
      interview_suggestions (send_message_multi e now w) = interview_suggestions w)"
proof (intro conjI impI)
  show "generate_dynamic_interview_suggestion e w = (None, w)"
    if "length (conversation_messages w) < 2 \<or> job_description w = [] \<or> candidate_resumes w = []"
    using that by (auto simp: generate_dynamic_interview_suggestion_def)
  show "llm_prompts (snd (generate_dynamic_interview_suggestion e w)) =
        llm_prompts w @
          [suggestion_prompt (job_description w)
             (transcript (last3 (conversation_messages w)))]"
    if "2 \<le> length (conversation_messages w) \<and> job_description w \<noteq> [] \<and>
    candidate_resumes w \<noteq> []"
    using that by (intro generate_dynamic_interview_suggestion_prompt) simp_all
  show "length (last3 (conversation_messages w)) \<le> 3"
    by (rule last3_length)
  show "suffix (last3 (conversation_messages w)) (conversation_messages w)"
    by (rule last3_suffix)
  show "last3 (older @ recent) = recent" if "length recent = 3"
    using that by (rule last3_append)
  show "fst (generate_dynamic_interview_suggestion e w) = None"
    if "llm_invoke e
      (suggestion_prompt (job_description w) (transcript (last3 (conversation_messages w)))) =
      Inl err"
    using that by (rule generate_dynamic_interview_suggestion_failure)
  show "conversation_messages (snd (generate_dynamic_interview_suggestion e w)) =
     conversation_messages w"
    "job_description (snd (generate_dynamic_interview_suggestion e w)) = job_description w"
    "candidate_resumes (snd (generate_dynamic_interview_suggestion e w)) = candidate_resumes w"
    "interview_suggestions (snd (generate_dynamic_interview_suggestion e w)) =
     interview_suggestions w"
    using generate_dynamic_interview_suggestion_frame [of e w] by blast+
  show "interview_suggestions (send_message_multi e now w) = interview_suggestions w"
    if "\<forall>prompt. isl (llm_invoke e prompt)"
    using that by (rule send_message_multi_suggestions)
qed

theorem generate_dynamic_interview_suggestion_degrades_witness:
  "job_description initial_app_multi = [] \<and>
   generate_dynamic_interview_suggestion failing_env initial_app_multi =
     (None, initial_app_multi) \<and>
   llm_invoke failing_env
     (suggestion_prompt (job_description demo_app_multi)
        (transcript (last3 (conversation_messages demo_app_multi)))) =
     Inl (Exception ''timeout'') \<and>
   fst (generate_dynamic_interview_suggestion failing_env demo_app_multi) = None \<and>
   interview_suggestions (snd (generate_dynamic_interview_suggestion failing_env demo_app_multi)) =
     [''Which tools?''] \<and>
   (\<forall>prompt. isl (llm_invoke failing_env prompt)) \<and>
   interview_suggestions
     (send_message_multi failing_env noon (demo_app_multi\<lparr>message_input := ''And Python?''\<rparr>)) =
     [''Which tools?'']"
proof -
  let ?p = "suggestion_prompt (job_description demo_app_multi)
        (transcript (last3 (conversation_messages demo_app_multi)))"
  let ?w = "demo_app_multi\<lparr>message_input := ''And Python?''\<rparr>"
  have a: "job_description initial_app_multi = []"
    by (simp add: initial_app_multi_def)
  have b: "llm_invoke failing_env ?p = Inl (Exception ''timeout'')"
    by (simp add: failing_env_def)
  have c: "\<forall>prompt. isl (llm_invoke failing_env prompt)"
    by (simp add: failing_env_def)
  have i: "interview_suggestions demo_app_multi = [''Which tools?'']"
    "interview_suggestions ?w = [''Which tools?'']"
    by (simp_all add: demo_app_multi_def)
  note t1 = generate_dynamic_interview_suggestion_degrades
    [where w = initial_app_multi and e = failing_env]
  note t2 = generate_dynamic_interview_suggestion_degrades
    [where w = demo_app_multi and e = failing_env and err = "Exception ''timeout''"]
  note t3 = generate_dynamic_interview_suggestion_degrades
    [where w = ?w and e = failing_env and now = noon]
  from t1 a have r1: "generate_dynamic_interview_suggestion failing_env initial_app_multi =
     (None, initial_app_multi)"
    by blast
  from t2 b have r2: "fst (generate_dynamic_interview_suggestion failing_env demo_app_multi) = None"
    by blast
  from t2 have "interview_suggestions
      (snd (generate_dynamic_interview_suggestion failing_env demo_app_multi)) =
     interview_suggestions demo_app_multi"
    by blast
  with i have r3: "interview_suggestions
      (snd (generate_dynamic_interview_suggestion failing_env demo_app_multi)) = [''Which tools?'']"
    by simp
  from t3 c have "interview_suggestions (send_message_multi failing_env noon ?w) =
      interview_suggestions ?w"
    by blast
  with i have r4: "interview_suggestions (send_message_multi failing_env noon ?w) =
      [''Which tools?'']"
    by simp
  from a r1 b r2 r3 c r4 show ?thesis
    by (intro conjI)
qed

section \<open>Writing the report\<close>

text \<open>
  C7. With a path chosen and writable, \<open>save_analysis\<close> writes the header followed by the
  analysis text as it is. The header holds the date and time of the clock, the line
  \<open>Messages analyzed:\<close> with the number of messages stored, and the match score of the
  job description and the resume. The PDF report alone cuts the analysis, after its
  asterisks are removed, into paragraphs at the pairs of line feeds: after the title and the
  date, the story holds one paragraph for each piece, and the pieces joined by pairs of
  line feeds give the text back.
\<close>

theorem save_analysis_writes_header_and_text:
  "(file_path \<noteq> [] \<longrightarrow> open_write e file_path = None \<longrightarrow>
      files (snd (save_analysis e now file_path analysis w)) file_path =
        Some (report_metadata e now w @ analysis)) \<and>
   sublist (''Date: '' @ strftime_YmdHM now) (report_metadata e now w) \<and>
   sublist (''Messages analyzed: '' @ show_nat (length (conversation_messages w)) @ [newline])
     (report_metadata e now w) \<and>
   sublist
     (''Initial resume match score: '' @
      format_1f e (calculate_match_score e (job_description w) (candidate_resume w)) @ ''/10'')
     (report_metadata e now w) \<and>
   (open_write e file_path = None \<longrightarrow>
      pdfs (snd (save_pdf_report e now file_path analysis wm)) file_path =
        Some (report_story now analysis)) \<and>
   drop 4 (report_story now analysis) =
     concat (map (\<lambda>section. [Paragraph section ''Normal'', Spacer 1 6])
       (split_blank (remove_asterisks analysis))) \<and>
   join [newline, newline] (split_blank (remove_asterisks analysis)) = remove_asterisks analysis"
proof (intro conjI impI)
  show "files (snd (save_analysis e now file_path analysis w)) file_path =
        Some (report_metadata e now w @ analysis)"
    if "file_path \<noteq> []" and "open_write e file_path = None"
    using that by (simp add: save_analysis_def)
  show "sublist (''Date: '' @ strftime_YmdHM now) (report_metadata e now w)"
    by (rule report_metadata_date)
  show "sublist (''Messages analyzed: '' @ show_nat (length (conversation_messages w)) @ [newline])
     (report_metadata e now w)"
    by (rule report_metadata_count)
  show "sublist
     (''Initial resume match score: '' @
      format_1f e (calculate_match_score e (job_description w) (candidate_resume w)) @ ''/10'')
     (report_metadata e now w)"
    by (rule report_metadata_score)
  show "pdfs (snd (save_pdf_report e now file_path analysis wm)) file_path =
        Some (report_story now analysis)"
    if "open_write e file_path = None"
    using that by (simp add: save_pdf_report_def)
  show "drop 4 (report_story now analysis) =
     concat (map (\<lambda>section. [Paragraph section ''Normal'', Spacer 1 6])
       (split_blank (remove_asterisks analysis)))"
    by (simp add: report_story_def Let_def)
  show "join [newline, newline] (split_blank (remove_asterisks analysis)) =
      remove_asterisks analysis"
    by (rule join_split_blank)
qed

theorem save_analysis_writes_header_and_text_witness:
  "''report.txt'' \<noteq> [] \<and> open_write demo_env ''report.txt'' = None \<and>
   length (conversation_messages demo_app5) = 5 \<and>
   files (snd (save_analysis demo_env noon ''report.txt'' (''A'' @ [newline, newline] @ ''B'')
     demo_app5)) ''report.txt'' =
     Some (report_metadata demo_env noon demo_app5 @ ''A'' @ [newline, newline] @ ''B'') \<and>
   sublist (''Messages analyzed: 5'' @ [newline]) (report_metadata demo_env noon demo_app5) \<and>
   report_metadata demo_env noon demo_app5 =
     [newline] @ ''CANDIDATE EVALUATION REPORT'' @ [newline] @
     ''Date: 2025-03-07 12:05'' @ [newline] @
     ''Messages analyzed: 5'' @ [newline] @
     ''Initial resume match score: -10.0/10'' @ [newline, newline] @
     ''--- ANALYSIS RESULTS ---'' @ [newline, newline] \<and>
   drop 4 (report_story noon (''A*'' @ [newline, newline] @ ''B'')) =
     [Paragraph ''A'' ''Normal'', Spacer 1 6, Paragraph ''B'' ''Normal'', Spacer 1 6]"
proof -
  let ?a = "''A'' @ [newline, newline] @ ''B''"
  let ?b = "''A*'' @ [newline, newline] @ ''B''"
  have a: "''report.txt'' \<noteq> []"
    by simp
  have b: "open_write demo_env ''report.txt'' = None"
    by (simp add: demo_env_def)
  have c: "length (conversation_messages demo_app5) = 5"
    by (simp add: demo_app5_def demo_messages_def)
  have d: "show_nat 5 = ''5''"
    by (simp add: show_nat.simps digit_char_def)
  have s: "calculate_match_score demo_env (job_description demo_app5)
      (candidate_resume demo_app5) = - 10"
    by (simp add: calculate_match_score_def demo_env_def pytorch_cos_sim_def l2_norm_def dot_def
        demo_app5_def demo_app_def initial_app_def)
  have f: "format_1f demo_env (- 10) = ''-10.0''"
    by (simp add: demo_env_def)
  have y: "strftime_YmdHM noon = ''2025-03-07 12:05''"
    by (simp add: strftime_YmdHM_def noon_def pad2_def show_nat.simps digit_char_def)
  have h: "report_metadata demo_env noon demo_app5 =
     [newline] @ ''CANDIDATE EVALUATION REPORT'' @ [newline] @
     ''Date: 2025-03-07 12:05'' @ [newline] @
     ''Messages analyzed: 5'' @ [newline] @
     ''Initial resume match score: -10.0/10'' @ [newline, newline] @
     ''--- ANALYSIS RESULTS ---'' @ [newline, newline]"
    by (simp add: report_metadata_def c d s f y newline_def)
  have p: "split_blank (remove_asterisks ?b) = [''A'', ''B'']"
    by (simp add: split_blank_def remove_asterisks_def asterisk_def newline_def)
  note t = save_analysis_writes_header_and_text
    [where file_path = "''report.txt''" and e = demo_env and now = noon and w = demo_app5]
  from t [where analysis = ?a] a b have r1:
    "files (snd (save_analysis demo_env noon ''report.txt'' ?a demo_app5)) ''report.txt'' =
      Some (report_metadata demo_env noon demo_app5 @ ?a)"
    by blast
  from t [where analysis = ?a]
  have "sublist (''Messages analyzed: '' @ show_nat (length (conversation_messages demo_app5)) @
      [newline]) (report_metadata demo_env noon demo_app5)"
    by blast
  with c d have r2: "sublist (''Messages analyzed: 5'' @ [newline])
      (report_metadata demo_env noon demo_app5)"
    by simp
  from t [where analysis = ?b] have "drop 4 (report_story noon ?b) =
     concat (map (\<lambda>section. [Paragraph section ''Normal'', Spacer 1 6])
       (split_blank (remove_asterisks ?b)))"
    by blast
  with p have r3: "drop 4 (report_story noon ?b) =
     [Paragraph ''A'' ''Normal'', Spacer 1 6, Paragraph ''B'' ''Normal'', Spacer 1 6]"
    by simp
  from a b c r1 r2 h r3 show ?thesis
    by (intro conjI)
qed

end
